theory Spec2Isabelle
  imports Main
begin

section \<open>Python strings\<close>

text \<open>
  A Python \<open>str\<close> is a sequence of Unicode code points, so it is modelled as a list of
  naturals, one per code point. \<open>str\<close> turns an ASCII literal into such a list, so that
  \<open>str ''###''\<close> stands for the Python literal \<open>'###'\<close>; the language names of the
  catalogue that are not ASCII are written as their code points.
\<close>

type_synonym pystr = "nat list"

definition str :: "string \<Rightarrow> pystr" where
  "str s = map of_char s"

text \<open>
  \<open>str.isspace\<close> on one code point, as CPython's \<open>_PyUnicode_IsWhitespace\<close> has it:
  U+0009..U+000D, U+001C..U+0020, U+0085, U+00A0, U+1680, U+2000..U+200A, U+2028, U+2029,
  U+202F, U+205F, U+3000.
\<close>

definition isspace :: "nat \<Rightarrow> bool" where
  "isspace c \<longleftrightarrow>
     (9 \<le> c \<and> c \<le> 13) \<or> (28 \<le> c \<and> c \<le> 32) \<or> c = 133 \<or> c = 160 \<or> c = 5760 \<or>
     (8192 \<le> c \<and> c \<le> 8202) \<or> c = 8232 \<or> c = 8233 \<or> c = 8239 \<or> c = 8287 \<or> c = 12288"

definition lstrip :: "pystr \<Rightarrow> pystr" where
  "lstrip s = dropWhile isspace s"

definition rstrip :: "pystr \<Rightarrow> pystr" where
  "rstrip s = rev (dropWhile isspace (rev s))"

text \<open>\<open>sep.join(xs)\<close>.\<close>

fun join :: "pystr \<Rightarrow> pystr list \<Rightarrow> pystr" where
  "join sep [] = []"
| "join sep [x] = x"
| "join sep (x # y # ys) = x @ sep @ join sep (y # ys)"

text \<open>\<open>s.replace(old, new)\<close> for a pattern \<open>old\<close> of one code point.\<close>

definition replace :: "nat \<Rightarrow> pystr \<Rightarrow> pystr \<Rightarrow> pystr" where
  "replace old new s = concat (map (\<lambda>c. if c = old then new else [c]) s)"

text \<open>\<open>sub in s\<close> on strings: \<open>sub\<close> occurs in \<open>s\<close> as a contiguous substring.\<close>

fun contains :: "pystr \<Rightarrow> pystr \<Rightarrow> bool" where
  "contains sub [] = (sub = [])"
| "contains sub (c # cs) = (take (length sub) (c # cs) = sub \<or> contains sub cs)"

datatype error =
    MissingTranslatorParams pystr
  | TranslatorSetupFailure error
  | InvalidSourceOrTargetLanguage pystr pystr
  | NotImplementedError
  | AssertionError
  | IndexError
  | ValueError
  | TypeError
  | OverflowError
  | OtherException pystr

text \<open>
  \<open>s.split(sep)\<close> with a separator: the occurrences of \<open>sep\<close> are found from the left and
  do not overlap; \<open>cur\<close> is the piece read since the last occurrence. An empty separator
  raises \<open>ValueError\<close>.
\<close>

fun split_scan :: "pystr \<Rightarrow> pystr \<Rightarrow> pystr \<Rightarrow> pystr list" where
  "split_scan sep cur [] = [cur]"
| "split_scan sep cur (c # cs) =
     (if take (length sep) (c # cs) = sep
      then cur # split_scan sep [] (drop (length sep - 1) cs)
      else split_scan sep (cur @ [c]) cs)"

definition split :: "pystr \<Rightarrow> pystr \<Rightarrow> error + pystr list" where
  "split s sep = (if sep = [] then Inl ValueError else Inr (split_scan sep [] s))"


section \<open>Data model\<close>

text \<open>The argument and the result of \<open>translate\<close>, \<open>Union[str, List]\<close>.\<close>

datatype pytext = Str pystr | Lst "pystr list"

text \<open>
  A post-processing hook is a callable object. The hook set compares callables by
  identity, so a hook is modelled by a reference: the bound method \<open>self._chs2cht\<close>, or an
  outside callable named by its address; what an outside callable computes is given by the
  environment (\<open>hook_fun\<close>). Following the specification, a hook is a pure function from a
  fragment to a fragment.
\<close>

datatype callback = Chs2cht_method | External nat

text \<open>The argument of \<open>register_postprocess_hooks\<close>: \<open>None\<close>, one callable, or a list.\<close>

datatype callbacks_arg = NoCallbacks | OneCallback callback | CallbackList "callback list"

text \<open>
  The values of the configuration bag \<open>params\<close>. The type \<open>'f\<close> stands for Python's
  \<open>float\<close>; its operations are parameters (\<open>float_ops\<close>), so that nothing is assumed
  about floating-point arithmetic.
\<close>

datatype 'f pyval =
    PyNone
  | PyBool bool
  | PyInt int
  | PyFloat 'f
  | PyStr pystr
  | PyList "'f pyval list"

record 'f float_ops =
  float_of_int :: "int \<Rightarrow> error + 'f"
  float_of_str :: "pystr \<Rightarrow> error + 'f"
  float_is_zero :: "'f \<Rightarrow> bool"
  float_zero :: "'f"

text \<open>
  The instance. \<open>lang_map\<close> is a Python dict, kept as an association list in insertion
  order; \<open>postprocess_hooks\<close> is the \<open>OrderedSet\<close>, kept as the list of its elements in
  insertion order. \<open>valid_lang_list\<close> is assigned only after the backend's setup; until
  then the record holds the empty list for it.
\<close>

record 'f translator =
  params :: "pystr \<rightharpoonup> 'f pyval"
  name :: pystr
  textblk_break :: pystr
  lang_source :: pystr
  lang_target :: pystr
  lang_map :: "(pystr \<times> pystr) list"
  postprocess_hooks :: "callback list"
  valid_lang_list :: "pystr list"

text \<open>
  What the module imports from files outside \<open>base.py\<close>: \<open>text_is_empty\<close>
  (\<open>utils.io_utils\<close>), the registry's \<open>module_dict\<close> (registered name to class, a class
  being named by a number), the conversion \<open>chs2cht\<close> (\<open>hooks\<close>), and the functions of
  the outside callables registered as hooks.
\<close>

record env =
  text_is_empty :: "pytext \<Rightarrow> bool"
  module_dict :: "(pystr \<times> nat) list"
  chs2cht :: "pystr \<Rightarrow> pystr"
  hook_fun :: "nat \<Rightarrow> pystr \<Rightarrow> pystr"

text \<open>
  A concrete backend, the subclass of \<open>BaseTranslator\<close>: its class, its class attributes
  and its two abstract methods, \<open>_setup_translator\<close> and \<open>_translate\<close> (\<open>u_\<close> stands
  for the leading underscore). \<open>_translate\<close> answers in the shape of its argument, or
  \<open>None\<close>, so it is given by shape: \<open>u_translate_str\<close> on a string and
  \<open>u_translate_list\<close> on a list. Either method may raise.
\<close>

record 'f backend =
  cls :: nat
  concate_text :: bool
  cht_require_convert :: bool
  u_setup_translator :: "'f translator \<Rightarrow> error + 'f translator"
  u_translate_str :: "'f translator \<Rightarrow> pystr \<Rightarrow> error + pystr option"
  u_translate_list :: "'f translator \<Rightarrow> pystr list \<Rightarrow> error + pystr list option"

text \<open>What a run of \<open>translate\<close> calls outside itself, in order.\<close>

datatype event = Call_translate pytext | Call_hook callback pystr

section \<open>The language catalogue and the validated setters\<close>

definition LANGMAP_GLOBAL :: "(pystr \<times> pystr) list" where
  "LANGMAP_GLOBAL =
    [(str ''Auto'', []),
     ([31616, 20307, 20013, 25991], []),
     ([32321, 39636, 20013, 25991], []),
     ([26085, 26412, 35486], []),
     (str ''English'', []),
     ([54620, 44397, 50612], []),
     ([84, 105, 7871, 110, 103, 32, 86, 105, 7879, 116], []),
     ([269, 101, 353, 116, 105, 110, 97], []),
     (str ''Nederlands'', []),
     ([102, 114, 97, 110, 231, 97, 105, 115], []),
     (str ''Deutsch'', []),
     (str ''magyar nyelv'', []),
     (str ''italiano'', []),
     (str ''polski'', []),
     ([112, 111, 114, 116, 117, 103, 117, 234, 115], []),
     ([108, 105, 109, 98, 97, 32, 114, 111, 109, 226, 110, 259], []),
     ([1088, 1091, 1089, 1089, 1082, 1080, 1081, 32, 1103, 1079, 1099, 1082], []),
     ([101, 115, 112, 97, 241, 111, 108], []),
     ([84, 252, 114, 107, 32, 100, 105, 108, 105], [])]"

definition supported_languages :: "'f translator \<Rightarrow> pystr list" where
  "supported_languages self = valid_lang_list self"

definition supported_tgt_list :: "'f translator \<Rightarrow> pystr list" where
  "supported_tgt_list self = valid_lang_list self"

definition supported_src_list :: "'f translator \<Rightarrow> pystr list" where
  "supported_src_list self = valid_lang_list self"

text \<open>
  The decorator. A setter returns its outcome together with the instance, so that what a
  raising call leaves behind can be read.
\<close>

definition check_language_support ::
  "pystr \<Rightarrow> ('f translator \<Rightarrow> pystr \<Rightarrow> (error + unit) \<times> 'f translator) \<Rightarrow>
   'f translator \<Rightarrow> pystr \<Rightarrow> (error + unit) \<times> 'f translator" where
  "check_language_support check_type set_lang_method self lang =
     (let supported_lang_list =
        (if check_type = str ''source'' then supported_src_list self else supported_tgt_list self)
      in if lang \<notin> set supported_lang_list
         then (let msg = join (str ''\<newline>'') supported_lang_list
               in (Inl (InvalidSourceOrTargetLanguage
                          (str ''Invalid '' @ check_type @ str '': '' @ lang @ str ''\<newline>'') msg),
                   self))
         else set_lang_method self lang)"

definition set_source :: "'f translator \<Rightarrow> pystr \<Rightarrow> (error + unit) \<times> 'f translator" where
  "set_source =
     check_language_support (str ''source'') (\<lambda>self lang. (Inr (), self\<lparr>lang_source := lang\<rparr>))"

definition set_target :: "'f translator \<Rightarrow> pystr \<Rightarrow> (error + unit) \<times> 'f translator" where
  "set_target =
     check_language_support (str ''target'') (\<lambda>self lang. (Inr (), self\<lparr>lang_target := lang\<rparr>))"

section \<open>The hook set\<close>

text \<open>\<open>OrderedSet.add\<close>: an element already present stays where it is.\<close>

definition ordered_set_add :: "'a list \<Rightarrow> 'a \<Rightarrow> 'a list" where
  "ordered_set_add xs x = (if x \<in> set xs then xs else xs @ [x])"

definition register_postprocess_hooks :: "'f translator \<Rightarrow> callbacks_arg \<Rightarrow> 'f translator" where
  "register_postprocess_hooks self callbacks =
     (case callbacks of
        NoCallbacks \<Rightarrow> self
      | OneCallback c \<Rightarrow>
          self\<lparr>postprocess_hooks := foldl ordered_set_add (postprocess_hooks self) [c]\<rparr>
      | CallbackList cs \<Rightarrow>
          self\<lparr>postprocess_hooks := foldl ordered_set_add (postprocess_hooks self) cs\<rparr>)"

definition u_chs2cht :: "env \<Rightarrow> 'f translator \<Rightarrow> pystr \<Rightarrow> pystr" where
  "u_chs2cht env self t =
     (if lang_target self = [32321, 39636, 20013, 25991] then chs2cht env t else t)"

text \<open>\<open>callback(t)\<close>.\<close>

definition call :: "env \<Rightarrow> 'f translator \<Rightarrow> callback \<Rightarrow> pystr \<Rightarrow> pystr" where
  "call env self cb t =
     (case cb of Chs2cht_method \<Rightarrow> u_chs2cht env self t | External h \<Rightarrow> hook_fun env h t)"



section \<open>The batching codec\<close>

definition textlist2text :: "'f translator \<Rightarrow> pystr list \<Rightarrow> pystr" where
  "textlist2text self text_list = join (textblk_break self) text_list"

text \<open>
  The breaker is the delimiter without its newlines (code point 10), or a bare newline
  when nothing is left; each piece is stripped on both sides.
\<close>

definition text2textlist :: "'f translator \<Rightarrow> pystr \<Rightarrow> error + pystr list" where
  "text2textlist self t =
     (let stripped = replace 10 [] (textblk_break self);
          breaker = (if stripped = [] then str ''\<newline>'' else stripped)
      in case split t breaker of
           Inl e \<Rightarrow> Inl e
         | Inr text_list \<Rightarrow> Inr (map (\<lambda>x. rstrip (lstrip x)) text_list))"

section \<open>translate\<close>

text \<open>
  The scalar loop, \<open>for callback in hooks: text_trans = callback(text_trans)\<close>: each hook
  receives what the hook before it returned.
\<close>

fun hooks_scalar ::
  "env \<Rightarrow> 'f translator \<Rightarrow> callback list \<Rightarrow> pystr \<Rightarrow> pystr \<times> event list" where
  "hooks_scalar env self [] text_trans = (text_trans, [])"
| "hooks_scalar env self (cb # cbs) text_trans =
     (let (out, calls) = hooks_scalar env self cbs (call env self cb text_trans)
      in (out, Call_hook cb text_trans # calls))"

text \<open>
  The inner loop of the list branch, \<open>for callback in hooks: text_trans[ii] = callback(t)\<close>:
  \<open>t\<close> is the element read by \<open>enumerate\<close> and is not assigned in the loop; \<open>slot\<close> is
  the current content of \<open>text_trans[ii]\<close>.
\<close>

fun hooks_item ::
  "env \<Rightarrow> 'f translator \<Rightarrow> callback list \<Rightarrow> pystr \<Rightarrow> pystr \<Rightarrow> pystr \<times> event list" where
  "hooks_item env self [] t slot = (slot, [])"
| "hooks_item env self (cb # cbs) t slot =
     (let (out, calls) = hooks_item env self cbs t (call env self cb t)
      in (out, Call_hook cb t # calls))"

text \<open>The outer loop, \<open>for ii, t in enumerate(text_trans)\<close>.\<close>

fun hooks_list ::
  "env \<Rightarrow> 'f translator \<Rightarrow> callback list \<Rightarrow> pystr list \<Rightarrow> pystr list \<times> event list" where
  "hooks_list env self cbs [] = ([], [])"
| "hooks_list env self cbs (t # ts) =
     (let (out, calls) = hooks_item env self cbs t t;
          (outs, calls') = hooks_list env self cbs ts
      in (out # outs, calls @ calls'))"

text \<open>The end of the list branch: the assertion on the lengths, then the hooks.\<close>

definition finish_list ::
  "env \<Rightarrow> 'f translator \<Rightarrow> pystr list \<Rightarrow> pystr list \<Rightarrow> (error + pytext) \<times> event list" where
  "finish_list env self text_list text_trans =
     (if length text_trans = length text_list
      then (let (outs, calls) = hooks_list env self (postprocess_hooks self) text_trans
            in (Inr (Lst outs), calls))
      else (Inl AssertionError, []))"

definition after :: "event \<Rightarrow> 'a \<times> event list \<Rightarrow> 'a \<times> event list" where
  "after ev r = (fst r, ev # snd r)"

text \<open>
  \<open>translate\<close> returns its outcome and the calls it made. The source tests the shape of
  \<open>text\<close> three times with \<open>isinstance\<close>; here the shape is taken apart once.
\<close>

definition translate ::
  "env \<Rightarrow> 'f backend \<Rightarrow> 'f translator \<Rightarrow> pytext \<Rightarrow> (error + pytext) \<times> event list" where
  "translate env b self text_in =
     (if text_is_empty env text_in then (Inr text_in, [])
      else (case text_in of
          Str s \<Rightarrow>
            (case u_translate_str b self s of
               Inl e \<Rightarrow> (Inl e, [Call_translate (Str s)])
             | Inr r \<Rightarrow>
                 (let text_trans = (case r of None \<Rightarrow> [] | Some t \<Rightarrow> t);
                      (out, calls) = hooks_scalar env self (postprocess_hooks self) text_trans
                  in (Inr (Str out), Call_translate (Str s) # calls)))
        | Lst l \<Rightarrow>
            (if concate_text b
             then (let text_source = textlist2text self l
                   in case u_translate_str b self text_source of
                        Inl e \<Rightarrow> (Inl e, [Call_translate (Str text_source)])
                      | Inr None \<Rightarrow>
                          after (Call_translate (Str text_source))
                            (finish_list env self l (replicate (length l) []))
                      | Inr (Some t) \<Rightarrow>
                          (case text2textlist self t of
                             Inl e \<Rightarrow> (Inl e, [Call_translate (Str text_source)])
                           | Inr text_trans \<Rightarrow>
                               after (Call_translate (Str text_source))
                                 (finish_list env self l text_trans)))
             else (case u_translate_list b self l of
                     Inl e \<Rightarrow> (Inl e, [Call_translate (Lst l)])
                   | Inr None \<Rightarrow>
                       after (Call_translate (Lst l))
                         (finish_list env self l (replicate (length l) []))
                   | Inr (Some text_trans) \<Rightarrow>
                       after (Call_translate (Lst l)) (finish_list env self l text_trans)))))"

section \<open>translate_textblk_lst\<close>

text \<open>
  \<open>TextBlock\<close> (\<open>textdetector.textblock\<close>) is outside \<open>base.py\<close>. The adapter uses three
  things of a block: \<open>get_text()\<close>, the attribute \<open>translation\<close>, which it assigns, and
  the block itself, which it hands to every hook as the keyword \<open>blk\<close>. A block is a
  record with the field \<open>translation\<close> and whatever else it holds; \<open>get_text\<close>, and what
  an outside callable computes when it is given a block (\<open>hook_fun_blk\<close>), are
  parameters.
\<close>

record textblock =
  translation :: pystr

record 'b blk_env =
  get_text :: "'b textblock_scheme \<Rightarrow> pystr"
  hook_fun_blk :: "nat \<Rightarrow> pystr \<Rightarrow> 'b textblock_scheme \<Rightarrow> pystr"

text \<open>
  Blocks are objects, and the adapter assigns to them: \<open>textblk_lst\<close> is a list of
  references (addresses), and the heap, a function from addresses, gives the block at each
  address, so that a block listed twice is one block.

  What a run of the adapter calls, in order: the calls of \<open>translate\<close>, then the hook
  calls of its own loop, each with the fragment and the address of the block it was given.
\<close>

datatype blk_event = Within_translate event | Call_hook_blk callback pystr nat

text \<open>
  \<open>callback(tr, blk=blk)\<close>. The bound method \<open>_chs2cht(self, text, blk=None)\<close> does not
  use the block.
\<close>

definition call_blk ::
  "env \<Rightarrow> 'b blk_env \<Rightarrow> 'f translator \<Rightarrow> callback \<Rightarrow> pystr \<Rightarrow> 'b textblock_scheme \<Rightarrow> pystr" where
  "call_blk env benv self cb tr blk =
     (case cb of
        Chs2cht_method \<Rightarrow> u_chs2cht env self tr
      | External h \<Rightarrow> hook_fun_blk benv h tr blk)"

text \<open>
  The inner loop of the adapter, \<open>for callback in hooks: tr = callback(tr, blk=blk)\<close>, on
  the block \<open>blk\<close> at the address \<open>a\<close>: each hook receives what the hook before it
  returned.
\<close>

fun hooks_blk ::
  "env \<Rightarrow> 'b blk_env \<Rightarrow> 'f translator \<Rightarrow> callback list \<Rightarrow> pystr \<Rightarrow> nat \<Rightarrow> 'b textblock_scheme
     \<Rightarrow> pystr \<times> blk_event list" where
  "hooks_blk env benv self [] tr a blk = (tr, [])"
| "hooks_blk env benv self (cb # cbs) tr a blk =
     (let (out, calls) = hooks_blk env benv self cbs (call_blk env benv self cb tr blk) a blk
      in (out, Call_hook_blk cb tr a # calls))"

text \<open>
  The outer loop, \<open>for tr, blk in zip(translations, textblk_lst)\<close>; each round ends with
  \<open>blk.translation = tr\<close>.
\<close>

fun write_back ::
  "env \<Rightarrow> 'b blk_env \<Rightarrow> 'f translator \<Rightarrow> (pystr \<times> nat) list \<Rightarrow> (nat \<Rightarrow> 'b textblock_scheme)
     \<Rightarrow> (nat \<Rightarrow> 'b textblock_scheme) \<times> blk_event list" where
  "write_back env benv self [] heap = (heap, [])"
| "write_back env benv self ((tr, a) # rest) heap =
     (let (out, calls) = hooks_blk env benv self (postprocess_hooks self) tr a (heap a);
          (heap', calls') = write_back env benv self rest (heap(a := (heap a)\<lparr>translation := out\<rparr>))
      in (heap', calls @ calls'))"

text \<open>What iterating over a result of \<open>translate\<close> yields: the elements of a list, the
  characters of a string.\<close>

fun items :: "pytext \<Rightarrow> pystr list" where
  "items (Lst l) = l"
| "items (Str s) = map (\<lambda>ch. [ch]) s"

text \<open>
  The adapter returns nothing and changes the blocks; here it returns its outcome, the heap
  it leaves and the calls it made. An exception of \<open>translate\<close> leaves the blocks as they
  were.
\<close>

definition translate_textblk_lst ::
  "env \<Rightarrow> 'b blk_env \<Rightarrow> 'f backend \<Rightarrow> 'f translator \<Rightarrow> nat list \<Rightarrow> (nat \<Rightarrow> 'b textblock_scheme)
     \<Rightarrow> (error + unit) \<times> (nat \<Rightarrow> 'b textblock_scheme) \<times> blk_event list" where
  "translate_textblk_lst env benv b self textblk_lst heap =
     (let text_list = map (\<lambda>a. get_text benv (heap a)) textblk_lst;
          (r, calls) = translate env b self (Lst text_list)
      in case r of
           Inl e \<Rightarrow> (Inl e, heap, map Within_translate calls)
         | Inr translations \<Rightarrow>
             (let (heap', calls') =
                    write_back env benv self (zip (items translations) textblk_lst) heap
              in (Inr (), heap', map Within_translate calls @ calls')))"

section \<open>Construction\<close>

text \<open>The registry loop: the first registered name whose class is the instance's.\<close>

fun find_name :: "(pystr \<times> nat) list \<Rightarrow> nat \<Rightarrow> pystr" where
  "find_name [] c = []"
| "find_name ((key, v) # rest) c = (if v = c then key else find_name rest c)"

text \<open>The instance as it is when \<open>setup_translator\<close> is called.\<close>

definition pre_setup ::
  "env \<Rightarrow> 'f backend \<Rightarrow> pystr \<Rightarrow> pystr \<Rightarrow> (pystr \<rightharpoonup> 'f pyval) \<Rightarrow> 'f translator" where
  "pre_setup env b src tgt ps =
     \<lparr>params = ps,
      name = find_name (module_dict env) (cls b),
      textblk_break = str ''\<newline>###\<newline>'',
      lang_source = src,
      lang_target = tgt,
      lang_map = LANGMAP_GLOBAL,
      postprocess_hooks = [],
      valid_lang_list = []\<rparr>"

definition is_MissingTranslatorParams :: "error \<Rightarrow> bool" where
  "is_MissingTranslatorParams e = (case e of MissingTranslatorParams _ \<Rightarrow> True | _ \<Rightarrow> False)"

definition is_InvalidSourceOrTargetLanguage :: "error \<Rightarrow> bool" where
  "is_InvalidSourceOrTargetLanguage e =
     (case e of InvalidSourceOrTargetLanguage _ _ \<Rightarrow> True | _ \<Rightarrow> False)"

text \<open>\<open>xs[0]\<close>.\<close>

definition first :: "'a list \<Rightarrow> error + 'a" where
  "first xs = (case xs of [] \<Rightarrow> Inl IndexError | x # _ \<Rightarrow> Inr x)"

text \<open>\<open>self.set_source(src); self.set_target(tgt)\<close>: the second call runs if the first returns.\<close>

definition set_source_target ::
  "'f translator \<Rightarrow> pystr \<Rightarrow> pystr \<Rightarrow> (error + unit) \<times> 'f translator" where
  "set_source_target self src tgt =
     (case set_source self src of
        (Inl e, self') \<Rightarrow> (Inl e, self')
      | (Inr _, self') \<Rightarrow> set_target self' tgt)"

definition register_chs2cht :: "'f backend \<Rightarrow> 'f translator \<Rightarrow> 'f translator" where
  "register_chs2cht b self =
     (if cht_require_convert b
      then register_postprocess_hooks self (OneCallback Chs2cht_method)
      else self)"

text \<open>
  \<open>__init__\<close>: the instance, or the exception that leaves the constructor (then there is
  no instance).
\<close>

definition init ::
  "env \<Rightarrow> 'f backend \<Rightarrow> pystr \<Rightarrow> pystr \<Rightarrow> bool \<Rightarrow> (pystr \<rightharpoonup> 'f pyval) \<Rightarrow>
   error + 'f translator" where
  "init env b src tgt raise_unsupported_lang ps =
     (case u_setup_translator b (pre_setup env b src tgt ps) of
        Inl e \<Rightarrow>
          (if is_MissingTranslatorParams e then Inl e else Inl (TranslatorSetupFailure e))
      | Inr s1 \<Rightarrow>
          (let s2 = s1\<lparr>valid_lang_list :=
                        filter (\<lambda>lang. map_of (lang_map s1) lang \<noteq> Some [])
                          (map fst (lang_map s1))\<rparr>
           in case set_source_target s2 src tgt of
                (Inr _, s3) \<Rightarrow> Inr (register_chs2cht b s3)
              | (Inl e, s3) \<Rightarrow>
                  (if \<not> is_InvalidSourceOrTargetLanguage e then Inl e
                   else if raise_unsupported_lang then Inl e
                   else (case first (supported_src_list s3) of
                           Inl e' \<Rightarrow> Inl e'
                         | Inr src' \<Rightarrow>
                             (case first (supported_tgt_list s3) of
                                Inl e' \<Rightarrow> Inl e'
                              | Inr tgt' \<Rightarrow>
                                  (case set_source_target s3 src' tgt' of
                                     (Inl e', _) \<Rightarrow> Inl e'
                                   | (Inr _, s4) \<Rightarrow> Inr (register_chs2cht b s4)))))))"

section \<open>delay\<close>

text \<open>The truth value of a configuration value, as \<open>if delay:\<close> tests it.\<close>

fun py_bool :: "'f float_ops \<Rightarrow> 'f pyval \<Rightarrow> bool" where
  "py_bool ops PyNone = False"
| "py_bool ops (PyBool b) = b"
| "py_bool ops (PyInt i) = (i \<noteq> 0)"
| "py_bool ops (PyFloat f) = (\<not> float_is_zero ops f)"
| "py_bool ops (PyStr s) = (s \<noteq> [])"
| "py_bool ops (PyList l) = (l \<noteq> [])"

text \<open>\<open>float(v)\<close>; \<open>bool\<close> is a subclass of \<open>int\<close>.\<close>

fun py_float :: "'f float_ops \<Rightarrow> 'f pyval \<Rightarrow> error + 'f" where
  "py_float ops PyNone = Inl TypeError"
| "py_float ops (PyBool b) = float_of_int ops (if b then 1 else 0)"
| "py_float ops (PyInt i) = float_of_int ops i"
| "py_float ops (PyFloat f) = Inr f"
| "py_float ops (PyStr s) = float_of_str ops s"
| "py_float ops (PyList l) = Inl TypeError"

text \<open>The bare \<open>except: pass\<close> turns every exception of \<open>float(delay)\<close> into the final \<open>return 0.\<close>\<close>

definition delay :: "'f float_ops \<Rightarrow> 'f translator \<Rightarrow> error + 'f" where
  "delay ops self =
     (case params self (str ''delay'') of
        None \<Rightarrow> Inr (float_zero ops)
      | Some d \<Rightarrow>
          (if py_bool ops d
           then (case py_float ops d of
                   Inr f \<Rightarrow> Inr f
                 | Inl _ \<Rightarrow> Inr (float_zero ops))
           else Inr (float_zero ops)))"



section \<open>A stub backend\<close>

text \<open>\<open>d[k] = v\<close> on a dict kept as an association list: a present key keeps its place.\<close>

fun dict_set :: "('k \<times> 'v) list \<Rightarrow> 'k \<Rightarrow> 'v \<Rightarrow> ('k \<times> 'v) list" where
  "dict_set [] k v = [(k, v)]"
| "dict_set ((k', v') # rest) k v =
     (if k' = k then (k, v) # rest else (k', v') # dict_set rest k v)"

text \<open>
  An environment and a backend to run the definitions on: \<open>text_is_empty\<close> accepts the
  empty string and the empty list, the outside callable \<open>h\<close> appends the digit \<open>h\<close> to
  its argument, and the backend supports English and Deutsch and echoes its input.
\<close>

definition ex_env :: env where
  "ex_env =
     \<lparr>text_is_empty = (\<lambda>t. t = Str [] \<or> t = Lst []),
      module_dict = [(str ''Stub'', 7)],
      chs2cht = (\<lambda>t. t),
      hook_fun = (\<lambda>h t. t @ [48 + h])\<rparr>"

definition ex_backend :: "int backend" where
  "ex_backend =
     \<lparr>cls = 7,
      concate_text = True,
      cht_require_convert = False,
      u_setup_translator =
        (\<lambda>self. Inr (self\<lparr>lang_map :=
           dict_set (dict_set (lang_map self) (str ''English'') (str ''en''))
             (str ''Deutsch'') (str ''de'')\<rparr>)),
      u_translate_str = (\<lambda>self t. Inr (Some t)),
      u_translate_list = (\<lambda>self l. Inr (Some l))\<rparr>"

definition ex_translator :: "int translator" where
  "ex_translator =
     \<lparr>params = [str ''delay'' \<mapsto> PyInt 3],
      name = str ''Stub'',
      textblk_break = str ''\<newline>###\<newline>'',
      lang_source = str ''English'',
      lang_target = str ''Deutsch'',
      lang_map =
        dict_set (dict_set LANGMAP_GLOBAL (str ''English'') (str ''en''))
          (str ''Deutsch'') (str ''de''),
      postprocess_hooks = [],
      valid_lang_list = [str ''English'', str ''Deutsch'']\<rparr>"

text \<open>The stub instance after two outside hooks were registered.\<close>

definition ex_hooked :: "int translator" where
  "ex_hooked = register_postprocess_hooks ex_translator (CallbackList [External 1, External 2])"

text \<open>A backend that produces no translation: its \<open>_translate\<close> returns \<open>None\<close>.\<close>

definition ex_backend_none :: "int backend" where
  "ex_backend_none =
     ex_backend\<lparr>u_translate_str := (\<lambda>self t. Inr None),
                u_translate_list := (\<lambda>self l. Inr None)\<rparr>"

text \<open>A backend whose setup leaves the catalogue as it is, with every code empty.\<close>

definition ex_backend_bare :: "int backend" where
  "ex_backend_bare = ex_backend\<lparr>u_setup_translator := (\<lambda>self. Inr self)\<rparr>"

text \<open>
  Stand-in float operations on \<open>int\<close>, to run \<open>delay\<close>: every integer converts, no
  string does.
\<close>

definition ex_float_ops :: "int float_ops" where
  "ex_float_ops =
     \<lparr>float_of_int = (\<lambda>i. Inr i),
      float_of_str = (\<lambda>s. Inl ValueError),
      float_is_zero = (\<lambda>f. f = 0),
      float_zero = 0\<rparr>"

text \<open>
  Blocks to run the adapter on: a block holds its text beside \<open>translation\<close>, the block at
  address 0 reads \<open>a\<close> and every other block reads \<open>b\<close>; given a block, the outside
  callable \<open>h\<close> appends the digit \<open>h\<close> as it does without one.
\<close>

definition ex_blk_env :: "pystr blk_env" where
  "ex_blk_env =
     \<lparr>get_text = textblock.more,
      hook_fun_blk = (\<lambda>h tr blk. tr @ [48 + h])\<rparr>"

definition ex_heap :: "nat \<Rightarrow> pystr textblock_scheme" where
  "ex_heap a = \<lparr>translation = [], \<dots> = (if a = 0 then str ''a'' else str ''b'')\<rparr>"

section \<open>Properties of instances and runs\<close>

text \<open>
  The state of the catalogue after construction: \<open>lang_map\<close> is a dict (no key twice) and
  \<open>valid_lang_list\<close> is what the constructor computed from it.
\<close>

definition catalogued :: "'f translator \<Rightarrow> bool" where
  "catalogued self \<longleftrightarrow>
     distinct (map fst (lang_map self)) \<and>
     valid_lang_list self =
       filter (\<lambda>lang. map_of (lang_map self) lang \<noteq> Some []) (map fst (lang_map self))"

text \<open>How many times a run called the hook \<open>c\<close>.\<close>

definition hook_runs :: "callback \<Rightarrow> event list \<Rightarrow> nat" where
  "hook_runs c calls =
     length (filter (\<lambda>ev. case ev of Call_hook c' _ \<Rightarrow> c' = c | Call_translate _ \<Rightarrow> False) calls)"

text \<open>
  The hooks applied one after the other in insertion order, each to the result of the one
  before: what sequential composition of the hook set computes on one fragment.
\<close>

definition compose_hooks :: "env \<Rightarrow> 'f translator \<Rightarrow> callback list \<Rightarrow> pystr \<Rightarrow> pystr" where
  "compose_hooks env self cbs t = foldl (\<lambda>acc cb. call env self cb acc) t cbs"

text \<open>How many times a run of the adapter called the hook \<open>c\<close>, within \<open>translate\<close> or in
  its own loop.\<close>

fun is_run :: "callback \<Rightarrow> blk_event \<Rightarrow> bool" where
  "is_run c (Within_translate (Call_hook c' t)) = (c' = c)"
| "is_run c (Within_translate (Call_translate x)) = False"
| "is_run c (Call_hook_blk c' t a) = (c' = c)"

definition hook_runs_blk :: "callback \<Rightarrow> blk_event list \<Rightarrow> nat" where
  "hook_runs_blk c calls = length (filter (is_run c) calls)"

section \<open>Join and split\<close>

lemma take_sep_append_newline:
  assumes "take (length sep) xs \<noteq> sep" and "10 \<notin> set sep"
  shows "take (length sep) (xs @ 10 # rest) \<noteq> (sep :: pystr)"
proof (cases "length sep \<le> length xs")
  case True
  then show ?thesis using assms(1) by simp
next
  case False
  then have "take (length sep) (xs @ 10 # rest)
      = xs @ 10 # take (length sep - Suc (length xs)) rest"
    by (simp add: take_Cons')
  then have "10 \<in> set (take (length sep) (xs @ 10 # rest))" by simp
  then show ?thesis using assms(2) by metis
qed

lemma split_scan_no_sep:
  "\<not> contains sep f \<Longrightarrow> sep \<noteq> [] \<Longrightarrow> split_scan sep cur f = [cur @ f]"
  by (induction f arbitrary: cur) auto

lemma split_scan_newline:
  assumes "sep \<noteq> []" and "10 \<notin> set sep"
  shows "split_scan sep cur (10 # rest) = split_scan sep (cur @ [10]) rest"
proof -
  have "take (length sep) ([] @ 10 # rest) \<noteq> sep"
    using assms by (intro take_sep_append_newline) auto
  then show ?thesis by simp
qed

lemma split_scan_at_sep:
  assumes "sep \<noteq> []"
  shows "split_scan sep cur (sep @ rest) = cur # split_scan sep [] rest"
proof -
  obtain s ss where sep: "sep = s # ss" using assms by (cases sep) auto
  show ?thesis unfolding sep by simp
qed

lemma split_scan_fragment:
  assumes "\<not> contains sep f" and "sep \<noteq> []" and "10 \<notin> set sep"
  shows "split_scan sep cur (f @ 10 # sep @ 10 # rest)
       = (cur @ f @ [10]) # split_scan sep [10] rest"
  using assms(1)
proof (induction f arbitrary: cur)
  case Nil
  have "split_scan sep cur (10 # sep @ 10 # rest)
      = split_scan sep (cur @ [10]) (sep @ 10 # rest)"
    using assms(2,3) by (rule split_scan_newline)
  also have "\<dots> = (cur @ [10]) # split_scan sep [] (10 # rest)"
    using assms(2) by (rule split_scan_at_sep)
  also have "split_scan sep [] (10 # rest) = split_scan sep ([] @ [10]) rest"
    using assms(2,3) by (rule split_scan_newline)
  finally show ?case by simp
next
  case (Cons c f)
  from Cons.prems have nm: "take (length sep) (c # f) \<noteq> sep" and nf: "\<not> contains sep f"
    by auto
  have "take (length sep) ((c # f) @ 10 # sep @ 10 # rest) \<noteq> sep"
    using nm assms(3) by (rule take_sep_append_newline)
  then have "split_scan sep cur ((c # f) @ 10 # sep @ 10 # rest)
      = split_scan sep (cur @ [c]) (f @ 10 # sep @ 10 # rest)"
    by simp
  also have "\<dots> = ((cur @ [c]) @ f @ [10]) # split_scan sep [10] rest"
    using Cons.IH [OF nf] .
  finally show ?case by simp
qed

lemma isspace_newline: "isspace 10"
  by (simp add: isspace_def)

lemma strip_newline_left: "rstrip (lstrip (10 # x)) = rstrip (lstrip x)"
  by (simp add: lstrip_def isspace_newline)

lemma strip_newline_right: "rstrip (lstrip (x @ [10])) = rstrip (lstrip x)"
proof (cases "\<forall>c\<in>set x. isspace c")
  case True
  then have "\<forall>c\<in>set (x @ [10]). isspace c"
    by (simp add: isspace_newline)
  then have "dropWhile isspace (x @ [10]) = []"
    by (simp only: dropWhile_eq_Nil_conv)
  moreover have "dropWhile isspace x = []"
    using True by (simp only: dropWhile_eq_Nil_conv)
  ultimately show ?thesis by (simp only: lstrip_def rstrip_def)
next
  case False
  then obtain c where "c \<in> set x" and "\<not> isspace c" by blast
  then have "dropWhile isspace (x @ [10]) = dropWhile isspace x @ [10]"
    by (rule dropWhile_append1)
  then show ?thesis by (simp add: lstrip_def rstrip_def isspace_newline)
qed

lemma split_scan_join:
  assumes "sep \<noteq> []" and "10 \<notin> set sep"
  shows "\<forall>x\<in>set (f # fs). \<not> contains sep x \<Longrightarrow>
     map (\<lambda>x. rstrip (lstrip x)) (split_scan sep cur (join (10 # sep @ [10]) (f # fs)))
       = rstrip (lstrip (cur @ f)) # map (\<lambda>x. rstrip (lstrip x)) fs"
proof (induction fs arbitrary: f cur)
  case Nil
  then show ?case using assms(1) by (simp add: split_scan_no_sep)
next
  case (Cons g fs)
  have "split_scan sep cur (join (10 # sep @ [10]) (f # g # fs))
      = (cur @ f @ [10]) # split_scan sep [10] (join (10 # sep @ [10]) (g # fs))"
    using split_scan_fragment [of sep f cur "join (10 # sep @ [10]) (g # fs)"] Cons.prems assms
    by simp
  moreover have
    "map (\<lambda>x. rstrip (lstrip x)) (split_scan sep [10] (join (10 # sep @ [10]) (g # fs)))
      = rstrip (lstrip ([10] @ g)) # map (\<lambda>x. rstrip (lstrip x)) fs"
    using Cons.prems by (intro Cons.IH) auto
  moreover have "rstrip (lstrip (cur @ f @ [10])) = rstrip (lstrip (cur @ f))"
    using strip_newline_right [of "cur @ f"] by simp
  ultimately show ?case by (simp add: strip_newline_left)
qed

lemma str_delimiter: "str ''\<newline>###\<newline>'' = 10 # str ''###'' @ [10]"
  by (simp add: str_def)

lemma breaker_default:
  "replace 10 [] (str ''\<newline>###\<newline>'') = str ''###''"
  by (simp add: replace_def str_def)

text \<open>
  C2, as amended. With the delimiter of the constructor, for a non-empty list of fragments
  none of which contains \<open>###\<close> (the delimiter without its newlines, which is what
  \<open>text2textlist\<close> splits on), joining and then splitting returns the fragments, each
  stripped of its leading and trailing whitespace; so the result has as many elements as
  the input.
\<close>

theorem text2textlist_textlist2text:
  assumes "textblk_break self = str ''\<newline>###\<newline>''"
    and "F \<noteq> []"
    and "\<forall>f\<in>set F. \<not> contains (str ''###'') f"
  shows "text2textlist self (textlist2text self F) = Inr (map (\<lambda>x. rstrip (lstrip x)) F)"
proof -
  obtain f fs where F: "F = f # fs" using assms(2) by (cases F) auto
  have sep: "str ''###'' \<noteq> []" "10 \<notin> set (str ''###'')"
    by (simp_all add: str_def)
  have "map (\<lambda>x. rstrip (lstrip x))
          (split_scan (str ''###'') [] (join (10 # str ''###'' @ [10]) (f # fs)))
      = rstrip (lstrip ([] @ f)) # map (\<lambda>x. rstrip (lstrip x)) fs"
    using sep assms(3) unfolding F by (rule split_scan_join)
  moreover have "text2textlist self t
      = Inr (map (\<lambda>x. rstrip (lstrip x)) (split_scan (str ''###'') [] t))" for t
    using sep(1) by (simp add: text2textlist_def split_def assms(1) breaker_default)
  moreover have "textlist2text self F = join (10 # str ''###'' @ [10]) (f # fs)"
    by (simp only: textlist2text_def assms(1) str_delimiter F)
  ultimately show ?thesis by (simp add: F)
qed

theorem text2textlist_textlist2text_witness:
  "textblk_break ex_translator = str ''\<newline>###\<newline>'' \<and>
   \<not> contains (str ''###'') (str '' a '') \<and>
   \<not> contains (str ''###'') (str ''b#'') \<and>
   \<not> contains (str ''###'') (str ''##c'') \<and>
   text2textlist ex_translator (textlist2text ex_translator [str '' a '', str ''b#'', str ''##c''])
     = Inr [str ''a'', str ''b#'', str ''##c'']"
proof -
  have a: "textblk_break ex_translator = str ''\<newline>###\<newline>''"
    by (simp add: ex_translator_def)
  have b: "[str '' a '', str ''b#'', str ''##c''] \<noteq> []" by simp
  have c: "\<forall>f\<in>set [str '' a '', str ''b#'', str ''##c'']. \<not> contains (str ''###'') f"
    by (simp add: str_def)
  show ?thesis
    using a c text2textlist_textlist2text [OF a b c]
    by (simp add: str_def lstrip_def rstrip_def isspace_def)
qed

text \<open>
  C2 as stated fails: the fragment \<open>a###b\<close> does not contain the delimiter
  \<open>\n###\n\<close>, and the round trip returns two fragments for it.
\<close>

theorem text2textlist_textlist2text_counterexample:
  "\<not> contains (str ''\<newline>###\<newline>'') (str ''a###b'') \<and>
   text2textlist ex_translator (textlist2text ex_translator [str ''a###b''])
     = Inr [str ''a'', str ''b''] \<and>
   map (\<lambda>x. rstrip (lstrip x)) [str ''a###b''] = [str ''a###b'']"
  by (simp add: ex_translator_def text2textlist_def textlist2text_def split_def replace_def
      str_def lstrip_def rstrip_def isspace_def)

section \<open>Empty input\<close>

text \<open>
  C4. \<open>text_is_empty\<close> is imported from \<open>utils.io_utils\<close> and is a parameter here; that
  it accepts the empty string and the empty list is what the specification says of it, and
  is assumed. Then for the empty string, the empty list and every input \<open>text_is_empty\<close>
  accepts, \<open>translate\<close> returns the input unchanged and the run makes no call: the
  backend's \<open>_translate\<close> is not invoked and no hook is applied. Joining and splitting
  are pure computations whose results could only reach the caller through the returned
  value, which is the input itself.
\<close>

theorem translate_empty_input:
  assumes "text_is_empty env (Str [])" and "text_is_empty env (Lst [])"
  shows "t = Str [] \<or> t = Lst [] \<or> text_is_empty env t \<Longrightarrow>
         translate env b self t = (Inr t, [])"
  using assms by (auto simp: translate_def)

theorem translate_empty_input_witness:
  "text_is_empty ex_env (Str []) \<and> text_is_empty ex_env (Lst []) \<and>
   translate ex_env ex_backend ex_hooked (Str []) = (Inr (Str []), []) \<and>
   translate ex_env ex_backend ex_hooked (Lst []) = (Inr (Lst []), [])"
proof -
  have a: "text_is_empty ex_env (Str [])" and b: "text_is_empty ex_env (Lst [])"
    by (simp_all add: ex_env_def)
  show ?thesis
    using a b translate_empty_input [OF a b, of "Str []" ex_backend ex_hooked]
      translate_empty_input [OF a b, of "Lst []" ex_backend ex_hooked]
    by simp
qed

section \<open>Failures of the backend's setup\<close>

text \<open>
  C6. When \<open>_setup_translator\<close> raises \<open>MissingTranslatorParams\<close>, the constructor raises
  that same exception; when it raises any other exception \<open>e\<close>, the constructor raises
  \<open>TranslatorSetupFailure(e)\<close>. In both cases the constructor's outcome is an exception,
  so no instance is produced.
\<close>

theorem init_setup_raises:
  "(u_setup_translator b (pre_setup env b src tgt ps) = Inl (MissingTranslatorParams m) \<longrightarrow>
      init env b src tgt r ps = Inl (MissingTranslatorParams m)) \<and>
   (u_setup_translator b (pre_setup env b src tgt ps) = Inl e \<and> \<not> is_MissingTranslatorParams e \<longrightarrow>
      init env b src tgt r ps = Inl (TranslatorSetupFailure e))"
  by (simp add: init_def is_MissingTranslatorParams_def)

theorem init_setup_raises_witness:
  "init ex_env (ex_backend\<lparr>u_setup_translator := (\<lambda>self. Inl (MissingTranslatorParams (str ''api_key'')))\<rparr>)
      (str ''English'') (str ''Deutsch'') True Map.empty = Inl (MissingTranslatorParams (str ''api_key'')) \<and>
   init ex_env (ex_backend\<lparr>u_setup_translator := (\<lambda>self. Inl NotImplementedError)\<rparr>)
      (str ''English'') (str ''Deutsch'') True Map.empty = Inl (TranslatorSetupFailure NotImplementedError)"
  using init_setup_raises [of "ex_backend\<lparr>u_setup_translator := (\<lambda>self. Inl (MissingTranslatorParams (str ''api_key'')))\<rparr>"
      ex_env "str ''English''" "str ''Deutsch''" Map.empty "str ''api_key''" True NotImplementedError]
    init_setup_raises [of "ex_backend\<lparr>u_setup_translator := (\<lambda>self. Inl NotImplementedError)\<rparr>"
      ex_env "str ''English''" "str ''Deutsch''" Map.empty "[]" True NotImplementedError]
  by (simp add: is_MissingTranslatorParams_def)

section \<open>A setter that raises changes nothing\<close>

text \<open>
  C9. If \<open>set_source\<close> or \<open>set_target\<close> raises, the exception is
  \<open>InvalidSourceOrTargetLanguage\<close> and the instance is left exactly as it was, in
  particular its current source and target language.
\<close>

theorem set_lang_raise_unchanged:
  "(fst (set_source self lang) = Inl e \<longrightarrow>
      snd (set_source self lang) = self \<and> is_InvalidSourceOrTargetLanguage e) \<and>
   (fst (set_target self lang) = Inl e \<longrightarrow>
      snd (set_target self lang) = self \<and> is_InvalidSourceOrTargetLanguage e)"
  by (auto simp: set_source_def set_target_def check_language_support_def Let_def
      is_InvalidSourceOrTargetLanguage_def split: if_splits)

theorem set_lang_raise_unchanged_witness:
  "fst (set_source ex_translator (str ''Auto'')) =
      Inl (InvalidSourceOrTargetLanguage (str ''Invalid source: Auto\<newline>'') (str ''English\<newline>Deutsch'')) \<and>
   snd (set_source ex_translator (str ''Auto'')) = ex_translator \<and>
   fst (set_target ex_translator (str ''Auto'')) =
      Inl (InvalidSourceOrTargetLanguage (str ''Invalid target: Auto\<newline>'') (str ''English\<newline>Deutsch'')) \<and>
   snd (set_target ex_translator (str ''Auto'')) = ex_translator"
proof -
  have l: "valid_lang_list ex_translator = [str ''English'', str ''Deutsch'']"
    by (simp add: ex_translator_def)
  have n: "str ''Auto'' \<notin> set [str ''English'', str ''Deutsch'']"
    by (simp add: str_def)
  have m: "join (str ''\<newline>'') [str ''English'', str ''Deutsch''] = str ''English\<newline>Deutsch''"
    by (simp add: str_def)
  have a: "fst (set_source ex_translator (str ''Auto'')) =
      Inl (InvalidSourceOrTargetLanguage (str ''Invalid source: Auto\<newline>'') (str ''English\<newline>Deutsch''))"
    using n by (simp add: set_source_def check_language_support_def supported_src_list_def l m)
      (simp add: str_def)
  have b: "fst (set_target ex_translator (str ''Auto'')) =
      Inl (InvalidSourceOrTargetLanguage (str ''Invalid target: Auto\<newline>'') (str ''English\<newline>Deutsch''))"
    using n by (simp add: set_target_def check_language_support_def supported_tgt_list_def l m)
      (simp add: str_def)
  from a set_lang_raise_unchanged [of ex_translator "str ''Auto''"]
  have c: "snd (set_source ex_translator (str ''Auto'')) = ex_translator" by blast
  from b set_lang_raise_unchanged [of ex_translator "str ''Auto''"]
  have d: "snd (set_target ex_translator (str ''Auto'')) = ex_translator" by blast
  from a b c d show ?thesis by blast
qed

section \<open>delay never raises\<close>

text \<open>
  C10. \<open>delay\<close> always returns a float and never raises. It returns
  \<open>float(params['delay'])\<close> when the key is present, its value is truthy and the
  conversion succeeds, and \<open>0.0\<close> in every other case: key absent, value falsy, or
  conversion raising.
\<close>

theorem delay_total:
  "(\<exists>f. delay ops self = Inr f) \<and>
   (\<forall>d f. params self (str ''delay'') = Some d \<and> py_bool ops d \<and> py_float ops d = Inr f \<longrightarrow>
      delay ops self = Inr f) \<and>
   (\<not> (\<exists>d f. params self (str ''delay'') = Some d \<and> py_bool ops d \<and> py_float ops d = Inr f) \<longrightarrow>
      delay ops self = Inr (float_zero ops))"
  by (auto simp: delay_def split: option.splits sum.splits)

theorem delay_total_witness:
  "delay ex_float_ops ex_translator = Inr 3 \<and>
   delay ex_float_ops (ex_translator\<lparr>params := Map.empty\<rparr>) = Inr 0 \<and>
   delay ex_float_ops (ex_translator\<lparr>params := [str ''delay'' \<mapsto> PyInt 0]\<rparr>) = Inr 0 \<and>
   delay ex_float_ops (ex_translator\<lparr>params := [str ''delay'' \<mapsto> PyStr []]\<rparr>) = Inr 0 \<and>
   delay ex_float_ops (ex_translator\<lparr>params := [str ''delay'' \<mapsto> PyStr (str ''soon'')]\<rparr>) = Inr 0"
proof -
  have z: "float_zero ex_float_ops = 0" by (simp add: ex_float_ops_def)
  have "params ex_translator (str ''delay'') = Some (PyInt 3) \<and> py_bool ex_float_ops (PyInt 3) \<and>
      py_float ex_float_ops (PyInt 3) = Inr 3"
    by (simp add: ex_translator_def ex_float_ops_def)
  with delay_total [of ex_float_ops ex_translator]
  have a: "delay ex_float_ops ex_translator = Inr 3" by blast
  have "\<not> (\<exists>d f. params (ex_translator\<lparr>params := Map.empty\<rparr>) (str ''delay'') = Some d \<and>
      py_bool ex_float_ops d \<and> py_float ex_float_ops d = Inr f)"
    by simp
  with delay_total [of ex_float_ops "ex_translator\<lparr>params := Map.empty\<rparr>"]
  have "delay ex_float_ops (ex_translator\<lparr>params := Map.empty\<rparr>) = Inr (float_zero ex_float_ops)" by blast
  then have b: "delay ex_float_ops (ex_translator\<lparr>params := Map.empty\<rparr>) = Inr 0" by (simp only: z)
  have "\<not> (\<exists>d f. params (ex_translator\<lparr>params := [str ''delay'' \<mapsto> PyInt 0]\<rparr>) (str ''delay'') = Some d \<and>
      py_bool ex_float_ops d \<and> py_float ex_float_ops d = Inr f)"
    by simp
  with delay_total [of ex_float_ops "ex_translator\<lparr>params := [str ''delay'' \<mapsto> PyInt 0]\<rparr>"]
  have "delay ex_float_ops (ex_translator\<lparr>params := [str ''delay'' \<mapsto> PyInt 0]\<rparr>) = Inr (float_zero ex_float_ops)" by blast
  then have c: "delay ex_float_ops (ex_translator\<lparr>params := [str ''delay'' \<mapsto> PyInt 0]\<rparr>) = Inr 0" by (simp only: z)
  have "\<not> (\<exists>d f. params (ex_translator\<lparr>params := [str ''delay'' \<mapsto> PyStr []]\<rparr>) (str ''delay'') = Some d \<and>
      py_bool ex_float_ops d \<and> py_float ex_float_ops d = Inr f)"
    by simp
  with delay_total [of ex_float_ops "ex_translator\<lparr>params := [str ''delay'' \<mapsto> PyStr []]\<rparr>"]
  have "delay ex_float_ops (ex_translator\<lparr>params := [str ''delay'' \<mapsto> PyStr []]\<rparr>) = Inr (float_zero ex_float_ops)" by blast
  then have d: "delay ex_float_ops (ex_translator\<lparr>params := [str ''delay'' \<mapsto> PyStr []]\<rparr>) = Inr 0" by (simp only: z)
  have "\<not> (\<exists>d f. params (ex_translator\<lparr>params := [str ''delay'' \<mapsto> PyStr (str ''soon'')]\<rparr>) (str ''delay'') = Some d \<and>
      py_bool ex_float_ops d \<and> py_float ex_float_ops d = Inr f)"
    by (simp add: ex_float_ops_def)
  with delay_total [of ex_float_ops "ex_translator\<lparr>params := [str ''delay'' \<mapsto> PyStr (str ''soon'')]\<rparr>"]
  have "delay ex_float_ops (ex_translator\<lparr>params := [str ''delay'' \<mapsto> PyStr (str ''soon'')]\<rparr>) = Inr (float_zero ex_float_ops)" by blast
  then have e: "delay ex_float_ops (ex_translator\<lparr>params := [str ''delay'' \<mapsto> PyStr (str ''soon'')]\<rparr>) = Inr 0" by (simp only: z)
  from a b c d e show ?thesis by blast
qed

section \<open>Language validation\<close>

lemma str_append: "str (a @ b) = str a @ str b"
  by (simp add: str_def)

lemma set_source_in:
  "lang \<in> set (valid_lang_list self) \<Longrightarrow> set_source self lang = (Inr (), self\<lparr>lang_source := lang\<rparr>)"
  by (simp add: set_source_def check_language_support_def supported_src_list_def)

lemma set_target_in:
  "lang \<in> set (valid_lang_list self) \<Longrightarrow> set_target self lang = (Inr (), self\<lparr>lang_target := lang\<rparr>)"
  by (simp add: set_target_def check_language_support_def supported_tgt_list_def str_def)

lemma set_source_notin:
  "lang \<notin> set (valid_lang_list self) \<Longrightarrow>
   set_source self lang =
     (Inl (InvalidSourceOrTargetLanguage (str ''Invalid source: '' @ lang @ str ''\<newline>'')
            (join (str ''\<newline>'') (valid_lang_list self))), self)"
  by (simp add: set_source_def check_language_support_def supported_src_list_def str_def)

lemma set_target_notin:
  "lang \<notin> set (valid_lang_list self) \<Longrightarrow>
   set_target self lang =
     (Inl (InvalidSourceOrTargetLanguage (str ''Invalid target: '' @ lang @ str ''\<newline>'')
            (join (str ''\<newline>'') (valid_lang_list self))), self)"
  by (simp add: set_target_def check_language_support_def supported_tgt_list_def str_def)

lemma catalogued_distinct: "catalogued self \<Longrightarrow> distinct (valid_lang_list self)"
  by (simp add: catalogued_def)

lemma catalogued_set:
  assumes "catalogued self"
  shows "set (valid_lang_list self) = {l. \<exists>code. (l, code) \<in> set (lang_map self) \<and> code \<noteq> []}"
proof -
  have d: "distinct (map fst (lang_map self))" using assms by (simp add: catalogued_def)
  have "set (valid_lang_list self)
      = {l \<in> fst ` set (lang_map self). map_of (lang_map self) l \<noteq> Some []}"
    using assms by (simp add: catalogued_def)
  also have "\<dots> = {l. \<exists>code. (l, code) \<in> set (lang_map self) \<and> code \<noteq> []}"
  proof (intro set_eqI iffI; clarsimp)
    fix l code assume "(l, code) \<in> set (lang_map self)" "map_of (lang_map self) l \<noteq> Some []"
    then show "\<exists>code. (l, code) \<in> set (lang_map self) \<and> code \<noteq> []"
      using d by (metis map_of_eq_Some_iff)
  next
    fix l code assume a: "(l, code) \<in> set (lang_map self)" "code \<noteq> []"
    then have "map_of (lang_map self) l = Some code" using d by simp
    then show "l \<in> fst ` set (lang_map self) \<and> map_of (lang_map self) l \<noteq> Some []"
      using a by force
  qed
  finally show ?thesis .
qed

lemma register_chs2cht_fields:
  "lang_source (register_chs2cht b s) = lang_source s"
  "lang_target (register_chs2cht b s) = lang_target s"
  "lang_map (register_chs2cht b s) = lang_map s"
  "valid_lang_list (register_chs2cht b s) = valid_lang_list s"
  by (simp_all add: register_chs2cht_def register_postprocess_hooks_def)

lemma set_source_target_in:
  "src \<in> set (valid_lang_list self) \<Longrightarrow> tgt \<in> set (valid_lang_list self) \<Longrightarrow>
   set_source_target self src tgt = (Inr (), self\<lparr>lang_source := src, lang_target := tgt\<rparr>)"
  by (simp add: set_source_target_def set_source_in set_target_in)

lemma set_source_target_notin:
  "src \<notin> set (valid_lang_list self) \<or> tgt \<notin> set (valid_lang_list self) \<Longrightarrow>
   \<exists>e s'. set_source_target self src tgt = (Inl e, s') \<and> is_InvalidSourceOrTargetLanguage e \<and>
      valid_lang_list s' = valid_lang_list self \<and> lang_map s' = lang_map self"
  by (cases "src \<in> set (valid_lang_list self)")
    (auto simp: set_source_target_def set_source_in set_target_in set_source_notin set_target_notin
      is_InvalidSourceOrTargetLanguage_def)

lemma init_after_setup:
  assumes "u_setup_translator b (pre_setup env b src tgt ps) = Inr s1"
  shows "init env b src tgt r ps =
    (case set_source_target
            (s1\<lparr>valid_lang_list :=
                  filter (\<lambda>lang. map_of (lang_map s1) lang \<noteq> Some []) (map fst (lang_map s1))\<rparr>)
            src tgt of
       (Inr _, s3) \<Rightarrow> Inr (register_chs2cht b s3)
     | (Inl e, s3) \<Rightarrow>
         (if \<not> is_InvalidSourceOrTargetLanguage e then Inl e
          else if r then Inl e
          else (case first (supported_src_list s3) of
                  Inl e' \<Rightarrow> Inl e'
                | Inr src' \<Rightarrow>
                    (case first (supported_tgt_list s3) of
                       Inl e' \<Rightarrow> Inl e'
                     | Inr tgt' \<Rightarrow>
                         (case set_source_target s3 src' tgt' of
                            (Inl e', _) \<Rightarrow> Inl e'
                          | (Inr _, s4) \<Rightarrow> Inr (register_chs2cht b s4))))))"
  by (simp add: init_def assms)

lemma init_catalogued:
  assumes "init env b src tgt r ps = Inr self"
    and "\<And>s s'. u_setup_translator b s = Inr s' \<Longrightarrow> distinct (map fst (lang_map s'))"
  shows "catalogued self"
proof -
  obtain s1 where s1: "u_setup_translator b (pre_setup env b src tgt ps) = Inr s1"
    using assms(1) by (cases "u_setup_translator b (pre_setup env b src tgt ps)")
      (auto simp: init_def split: if_splits)
  define valid where "valid = filter (\<lambda>lang. map_of (lang_map s1) lang \<noteq> Some []) (map fst (lang_map s1))"
  define s2 where "s2 = s1\<lparr>valid_lang_list := valid\<rparr>"
  have d: "distinct (map fst (lang_map s1))" using assms(2) s1 by blast
  have c2: "catalogued s2" using d by (simp add: catalogued_def s2_def valid_def)
  have keep: "catalogued s \<Longrightarrow> catalogued (s\<lparr>lang_source := a\<rparr>)" 
    "catalogued s \<Longrightarrow> catalogued (s\<lparr>lang_target := a\<rparr>)" 
    "catalogued s \<Longrightarrow> catalogued (register_chs2cht b s)" for s :: "'a translator" and a
    by (simp_all add: catalogued_def register_chs2cht_fields)
  have sst: "catalogued s \<Longrightarrow> catalogued (snd (set_source_target s x y))" for s :: "'a translator" and x y
    by (auto simp: set_source_target_def set_source_def set_target_def check_language_support_def
        Let_def catalogued_def split: prod.splits sum.splits if_splits)
  have i: "init env b src tgt r ps =
    (case set_source_target s2 src tgt of
                (Inr _, s3) \<Rightarrow> Inr (register_chs2cht b s3)
              | (Inl e, s3) \<Rightarrow>
                  (if \<not> is_InvalidSourceOrTargetLanguage e then Inl e
                   else if r then Inl e
                   else (case first (supported_src_list s3) of
                           Inl e' \<Rightarrow> Inl e'
                         | Inr src' \<Rightarrow>
                             (case first (supported_tgt_list s3) of
                                Inl e' \<Rightarrow> Inl e'
                              | Inr tgt' \<Rightarrow>
                                  (case set_source_target s3 src' tgt' of
                                     (Inl e', _) \<Rightarrow> Inl e'
                                   | (Inr _, s4) \<Rightarrow> Inr (register_chs2cht b s4))))))"
    unfolding s2_def valid_def by (rule init_after_setup [OF s1])
  show ?thesis
  proof (cases "set_source_target s2 src tgt")
    case (Pair o3 s3)
    have c3: "catalogued s3" using sst [OF c2, of src tgt] Pair by simp
    show ?thesis
    proof (cases o3)
      case (Inr u)
      then show ?thesis using assms(1) i Pair c3 keep(3) by auto
    next
      case (Inl e)
      then obtain src' tgt' o4 s4 where
        "set_source_target s3 src' tgt' = (o4, s4)" and "self = register_chs2cht b s4"
        using assms(1) i Pair
        by (auto split: if_splits sum.splits prod.splits)
      then show ?thesis using sst [OF c3, of src' tgt'] keep(3) by simp
    qed
  qed
qed

lemma ex_lang_map_keys:
  "map fst (dict_set (dict_set LANGMAP_GLOBAL (str ''English'') (str ''en'')) (str ''Deutsch'') (str ''de''))
     = map fst LANGMAP_GLOBAL"
  by (simp add: LANGMAP_GLOBAL_def str_def)

lemma LANGMAP_GLOBAL_distinct: "distinct (map fst LANGMAP_GLOBAL)"
  by (simp add: LANGMAP_GLOBAL_def str_def)

lemma ex_valid:
  "filter (\<lambda>lang. map_of (dict_set (dict_set LANGMAP_GLOBAL (str ''English'') (str ''en''))
                      (str ''Deutsch'') (str ''de'')) lang \<noteq> Some [])
     (map fst LANGMAP_GLOBAL) = [str ''English'', str ''Deutsch'']"
  by (simp add: LANGMAP_GLOBAL_def str_def)

lemma ex_translator_catalogued: "catalogued ex_translator"
proof -
  have m: "lang_map ex_translator =
      dict_set (dict_set LANGMAP_GLOBAL (str ''English'') (str ''en'')) (str ''Deutsch'') (str ''de'')"
    by (simp add: ex_translator_def)
  have v: "valid_lang_list ex_translator = [str ''English'', str ''Deutsch'']"
    by (simp add: ex_translator_def)
  show ?thesis
    unfolding catalogued_def m v ex_lang_map_keys ex_valid
    using LANGMAP_GLOBAL_distinct by simp
qed

lemma ex_setup:
  "u_setup_translator ex_backend (pre_setup ex_env ex_backend src tgt ps)
     = Inr ((pre_setup ex_env ex_backend src tgt ps)\<lparr>lang_map :=
          dict_set (dict_set LANGMAP_GLOBAL (str ''English'') (str ''en'')) (str ''Deutsch'') (str ''de'')\<rparr>)"
  by (simp add: ex_backend_def pre_setup_def)

lemma ex_init:
  "init ex_env ex_backend (str ''English'') (str ''Deutsch'') True [str ''delay'' \<mapsto> PyInt 3]
     = Inr ex_translator"
proof -
  have n: "find_name (module_dict ex_env) (cls ex_backend) = str ''Stub''"
    by (simp add: ex_env_def ex_backend_def)
  have c: "\<not> cht_require_convert ex_backend" by (simp add: ex_backend_def)
  have m: "str ''English'' \<in> set [str ''English'', str ''Deutsch'']"
    "str ''Deutsch'' \<in> set [str ''English'', str ''Deutsch'']" by simp_all
  show ?thesis
    unfolding init_after_setup [OF ex_setup]
    using m
    by (simp add: ex_lang_map_keys ex_valid set_source_target_in register_chs2cht_def c
        pre_setup_def n ex_translator_def)
qed

text \<open>
  The constructor leaves the catalogue in the state \<open>catalogued\<close>, provided the backend's
  setup leaves a dict in \<open>lang_map\<close>; the setters and the registration of hooks do not
  touch \<open>lang_map\<close> and \<open>valid_lang_list\<close>, so every instance in use is \<open>catalogued\<close>.
\<close>

text \<open>
  C5. On an instance whose catalogue is as the constructor left it, \<open>set_source\<close>
  (\<open>set_target\<close>) with a name that is not in the supported source (target) list raises
  \<open>InvalidSourceOrTargetLanguage\<close> and leaves the instance as it was; the message of the
  exception is the supported list joined by newlines, and that list holds each language
  whose code in the catalogue is not empty, exactly once. With a name that is in the list
  the call succeeds and sets the language.
\<close>

theorem set_lang_validated:
  assumes "catalogued self"
  shows "(lang \<notin> set (supported_src_list self) \<longrightarrow>
            set_source self lang =
              (Inl (InvalidSourceOrTargetLanguage (str ''Invalid source: '' @ lang @ str ''\<newline>'')
                     (join (str ''\<newline>'') (valid_lang_list self))), self)) \<and>
         (lang \<notin> set (supported_tgt_list self) \<longrightarrow>
            set_target self lang =
              (Inl (InvalidSourceOrTargetLanguage (str ''Invalid target: '' @ lang @ str ''\<newline>'')
                     (join (str ''\<newline>'') (valid_lang_list self))), self)) \<and>
         (lang \<in> set (supported_src_list self) \<longrightarrow>
            set_source self lang = (Inr (), self\<lparr>lang_source := lang\<rparr>)) \<and>
         (lang \<in> set (supported_tgt_list self) \<longrightarrow>
            set_target self lang = (Inr (), self\<lparr>lang_target := lang\<rparr>)) \<and>
         distinct (valid_lang_list self) \<and>
         set (valid_lang_list self) = {l. \<exists>code. (l, code) \<in> set (lang_map self) \<and> code \<noteq> []}"
  using catalogued_distinct [OF assms] catalogued_set [OF assms]
  by (simp add: supported_src_list_def supported_tgt_list_def set_source_in set_target_in
      set_source_notin set_target_notin)

theorem set_lang_validated_witness:
  "init ex_env ex_backend (str ''English'') (str ''Deutsch'') True [str ''delay'' \<mapsto> PyInt 3]
     = Inr ex_translator \<and>
   catalogued ex_translator \<and>
   set_source ex_translator (str ''Auto'') =
     (Inl (InvalidSourceOrTargetLanguage (str ''Invalid source: Auto\<newline>'')
            (str ''English\<newline>Deutsch'')), ex_translator) \<and>
   set_target ex_translator (str ''English'') =
     (Inr (), ex_translator\<lparr>lang_target := str ''English''\<rparr>)"
proof -
  have v: "valid_lang_list ex_translator = [str ''English'', str ''Deutsch'']"
    by (simp add: ex_translator_def)
  have a: "str ''Auto'' \<notin> set (supported_src_list ex_translator)"
    by (simp add: supported_src_list_def v) (simp add: str_def)
  have b: "str ''English'' \<in> set (supported_tgt_list ex_translator)"
    by (simp add: supported_tgt_list_def v)
  have j: "join (str ''\<newline>'') (valid_lang_list ex_translator) = str ''English\<newline>Deutsch''"
    by (simp add: v str_def)
  have k: "str ''Invalid source: '' @ str ''Auto'' @ str ''\<newline>'' = str ''Invalid source: Auto\<newline>''"
    by (simp add: str_def)
  from set_lang_validated [OF ex_translator_catalogued, of "str ''Auto''"] a
  have "set_source ex_translator (str ''Auto'') =
     (Inl (InvalidSourceOrTargetLanguage (str ''Invalid source: '' @ str ''Auto'' @ str ''\<newline>'')
            (join (str ''\<newline>'') (valid_lang_list ex_translator))), ex_translator)"
    by blast
  then have c: "set_source ex_translator (str ''Auto'') =
     (Inl (InvalidSourceOrTargetLanguage (str ''Invalid source: Auto\<newline>'')
            (str ''English\<newline>Deutsch'')), ex_translator)"
    by (simp only: j k)
  from set_lang_validated [OF ex_translator_catalogued, of "str ''English''"] b
  have d: "set_target ex_translator (str ''English'') =
     (Inr (), ex_translator\<lparr>lang_target := str ''English''\<rparr>)"
    by blast
  from ex_init ex_translator_catalogued c d show ?thesis by blast
qed

section \<open>The fallback of the constructor\<close>

text \<open>
  C7, as amended. When the backend's setup succeeds and at least one language has a
  non-empty code, a construction with \<open>raise_unsupported_lang = False\<close> whose source or
  target language is not supported succeeds, and the current source and target language of
  the instance are the first entry of the supported source and target list.
\<close>

theorem init_fallback:
  assumes "u_setup_translator b (pre_setup env b src tgt ps) = Inr s1"
    and "valid = filter (\<lambda>lang. map_of (lang_map s1) lang \<noteq> Some []) (map fst (lang_map s1))"
    and "valid \<noteq> []"
    and "src \<notin> set valid \<or> tgt \<notin> set valid"
  shows "\<exists>self. init env b src tgt False ps = Inr self \<and>
           supported_src_list self = valid \<and> supported_tgt_list self = valid \<and>
           lang_source self = hd (supported_src_list self) \<and>
           lang_target self = hd (supported_tgt_list self)"
proof -
  define s2 where "s2 = s1\<lparr>valid_lang_list := valid\<rparr>"
  have v2: "valid_lang_list s2 = valid" by (simp add: s2_def)
  obtain e s3 where s3: "set_source_target s2 src tgt = (Inl e, s3)"
    "is_InvalidSourceOrTargetLanguage e" "valid_lang_list s3 = valid"
    using set_source_target_notin [of src s2 tgt] assms(4) v2 by auto
  obtain h rest where h: "valid = h # rest" using assms(3) by (cases valid) auto
  have hin: "h \<in> set (valid_lang_list s3)" using s3(3) h by simp
  have f: "first (valid_lang_list s3) = Inr h" using s3(3) h by (simp add: first_def)
  have "init env b src tgt False ps
      = Inr (register_chs2cht b (s3\<lparr>lang_source := h, lang_target := h\<rparr>))"
    unfolding init_after_setup [OF assms(1)] assms(2) [symmetric] s2_def [symmetric]
    by (simp add: s3(1,2) supported_src_list_def supported_tgt_list_def f
        set_source_target_in [OF hin hin])
  then show ?thesis
    using s3(3) h
    by (simp add: supported_src_list_def supported_tgt_list_def register_chs2cht_fields)
qed

theorem init_fallback_witness:
  "\<exists>self. init ex_env ex_backend (str ''Auto'') (str ''Deutsch'') False Map.empty = Inr self \<and>
      supported_src_list self = [str ''English'', str ''Deutsch''] \<and>
      lang_source self = str ''English'' \<and> lang_target self = str ''English''"
proof -
  let ?s1 = "(pre_setup ex_env ex_backend (str ''Auto'') (str ''Deutsch'') Map.empty)\<lparr>lang_map :=
          dict_set (dict_set LANGMAP_GLOBAL (str ''English'') (str ''en'')) (str ''Deutsch'') (str ''de'')\<rparr>"
  have v: "[str ''English'', str ''Deutsch'']
      = filter (\<lambda>lang. map_of (lang_map ?s1) lang \<noteq> Some []) (map fst (lang_map ?s1))"
    by (simp add: ex_lang_map_keys ex_valid)
  have n: "[str ''English'', str ''Deutsch''] \<noteq> []" by simp
  have a: "str ''Auto'' \<notin> set [str ''English'', str ''Deutsch''] \<or>
           str ''Deutsch'' \<notin> set [str ''English'', str ''Deutsch'']"
    by (simp add: str_def)
  from init_fallback [OF ex_setup v n a] show ?thesis by auto
qed

text \<open>
  C7 as stated fails when no language is supported: with a setup that leaves every code
  empty the supported lists are empty, and the fallback's \<open>self.supported_src_list[0]\<close>
  raises \<open>IndexError\<close>, so that the construction does not succeed.
\<close>

theorem init_fallback_counterexample:
  "init ex_env ex_backend_bare (str ''English'') (str ''Deutsch'') False Map.empty = Inl IndexError"
proof -
  have s: "u_setup_translator ex_backend_bare (pre_setup ex_env ex_backend_bare src tgt ps)
      = Inr (pre_setup ex_env ex_backend_bare src tgt ps)" for src tgt ps
    by (simp add: ex_backend_bare_def ex_backend_def)
  have v: "filter (\<lambda>lang. map_of LANGMAP_GLOBAL lang \<noteq> Some []) (map fst LANGMAP_GLOBAL) = []"
    by (simp add: LANGMAP_GLOBAL_def str_def)
  have l: "lang_map (pre_setup ex_env ex_backend_bare src tgt ps) = LANGMAP_GLOBAL" for src tgt ps
    by (simp add: pre_setup_def)
  show ?thesis
    unfolding init_after_setup [OF s]
    by (simp add: l v set_source_target_def set_source_notin is_InvalidSourceOrTargetLanguage_def
        first_def supported_src_list_def)
qed

section \<open>The hook pipeline\<close>

text \<open>
  What the three loops compute. In the list branch the slot \<open>text_trans[ii]\<close> ends as the
  last hook applied to the fragment that was read, whatever the hooks before it returned;
  in the scalar branch the hooks are composed.
\<close>

lemma hooks_item_fst:
  "fst (hooks_item env self cbs t slot) = (if cbs = [] then slot else call env self (last cbs) t)"
  by (induction cbs arbitrary: slot) (simp_all add: split_beta)

lemma hooks_item_snd:
  "snd (hooks_item env self cbs t slot) = map (\<lambda>cb. Call_hook cb t) cbs"
  by (induction cbs arbitrary: slot) (simp_all add: split_beta)

lemma hooks_list_fst:
  "fst (hooks_list env self cbs ts)
     = map (\<lambda>t. if cbs = [] then t else call env self (last cbs) t) ts"
proof (induction ts)
  case Nil
  show ?case by simp
next
  case (Cons t ts)
  have "fst (hooks_list env self cbs (t # ts))
      = fst (hooks_item env self cbs t t) # fst (hooks_list env self cbs ts)"
    by (simp add: split_beta)
  then show ?case by (simp add: Cons.IH hooks_item_fst)
qed

lemma hooks_list_snd:
  "snd (hooks_list env self cbs ts) = concat (map (\<lambda>t. map (\<lambda>cb. Call_hook cb t) cbs) ts)"
proof (induction ts)
  case Nil
  show ?case by simp
next
  case (Cons t ts)
  have "snd (hooks_list env self cbs (t # ts))
      = snd (hooks_item env self cbs t t) @ snd (hooks_list env self cbs ts)"
    by (simp add: split_beta)
  then show ?case by (simp add: Cons.IH hooks_item_snd)
qed

lemma hooks_scalar_fst:
  "fst (hooks_scalar env self cbs t) = compose_hooks env self cbs t"
  by (induction cbs arbitrary: t) (simp_all add: compose_hooks_def split_beta)

lemma hook_runs_append: "hook_runs c (xs @ ys) = hook_runs c xs + hook_runs c ys"
  by (simp add: hook_runs_def)

lemma hook_runs_Cons_translate: "hook_runs c (Call_translate x # xs) = hook_runs c xs"
  by (simp add: hook_runs_def)

lemma hook_runs_map: "hook_runs c (map (\<lambda>cb. Call_hook cb t) cbs) = count_list cbs c"
  by (induction cbs) (auto simp: hook_runs_def)

lemma hook_runs_scalar: "hook_runs c (snd (hooks_scalar env self cbs t)) = count_list cbs c"
  by (induction cbs arbitrary: t) (simp_all add: hook_runs_def split_beta)

lemma hook_runs_Nil: "hook_runs c [] = 0"
  by (simp add: hook_runs_def)

lemma hook_runs_list:
  "hook_runs c (snd (hooks_list env self cbs ts)) = length ts * count_list cbs c"
  unfolding hooks_list_snd
  by (induction ts) (simp_all add: hook_runs_append hook_runs_map hook_runs_Nil)

lemma hooks_list_length: "length (fst (hooks_list env self cbs ts)) = length ts"
  by (simp add: hooks_list_fst)

lemma count_list_distinct: "distinct xs \<Longrightarrow> x \<in> set xs \<Longrightarrow> count_list xs x = 1"
  by (induction xs) auto

lemma finish_list_Inr:
  assumes "fst (finish_list env self l tt) = Inr out"
  shows "length tt = length l"
    and "out = Lst (fst (hooks_list env self (postprocess_hooks self) tt))"
    and "snd (finish_list env self l tt) = snd (hooks_list env self (postprocess_hooks self) tt)"
  using assms by (auto simp: finish_list_def split_beta split: if_splits)

lemma finish_list_runs:
  assumes "fst (finish_list env self l tt) = Inr out"
  shows "hook_runs c (snd (finish_list env self l tt))
       = length l * count_list (postprocess_hooks self) c"
    and "\<exists>outs. out = Lst outs \<and> length outs = length l"
  using finish_list_Inr [OF assms] by (simp_all add: hook_runs_list hooks_list_length)

lemma translate_Lst_runs:
  assumes "\<not> text_is_empty env (Lst l)" and "translate env b self (Lst l) = (Inr out, calls)"
  shows "hook_runs c calls = length l * count_list (postprocess_hooks self) c"
    and "\<exists>outs. out = Lst outs \<and> length outs = length l"
  using assms
  by (auto simp: translate_def after_def Let_def hook_runs_Cons_translate finish_list_runs
      split: if_splits sum.splits option.splits)

lemma translate_Str_runs:
  assumes "\<not> text_is_empty env (Str s)" and "translate env b self (Str s) = (Inr out, calls)"
  shows "hook_runs c calls = count_list (postprocess_hooks self) c"
  using assms
  by (auto simp: translate_def Let_def split_beta hook_runs_Cons_translate hook_runs_scalar
      split: if_splits sum.splits option.splits)

lemma ordered_set_add_member: "x \<in> set xs \<Longrightarrow> ordered_set_add xs x = xs"
  by (simp add: ordered_set_add_def)

lemma ordered_set_add_twice: "ordered_set_add (ordered_set_add xs x) x = ordered_set_add xs x"
  by (simp add: ordered_set_add_def)

lemma ordered_set_add_distinct: "distinct xs \<Longrightarrow> distinct (ordered_set_add xs x)"
  by (simp add: ordered_set_add_def)

lemma ordered_set_add_set: "set (ordered_set_add xs x) = insert x (set xs)"
  by (auto simp: ordered_set_add_def)

lemma foldl_ordered_set_add_distinct:
  "distinct xs \<Longrightarrow> distinct (foldl ordered_set_add xs cs)"
  by (induction cs arbitrary: xs) (simp_all add: ordered_set_add_distinct)

lemma foldl_ordered_set_add:
  "foldl ordered_set_add xs cs = xs @ rev (remdups (rev (filter (\<lambda>c. c \<notin> set xs) cs)))"
proof (induction cs rule: rev_induct)
  case Nil
  show ?case by simp
next
  case (snoc c cs)
  show ?case
    by (simp add: snoc.IH) (auto simp: ordered_set_add_def)
qed

lemma register_list_as_singles:
  "register_postprocess_hooks self (CallbackList cs)
     = foldl (\<lambda>s c. register_postprocess_hooks s (OneCallback c)) self cs"
proof (induction cs arbitrary: self)
  case Nil
  show ?case by (simp add: register_postprocess_hooks_def)
next
  case (Cons c cs)
  have "register_postprocess_hooks self (CallbackList (c # cs))
      = register_postprocess_hooks (register_postprocess_hooks self (OneCallback c)) (CallbackList cs)"
    by (simp add: register_postprocess_hooks_def)
  then show ?case by (simp add: Cons.IH)
qed

lemma register_distinct:
  "distinct (postprocess_hooks self) \<Longrightarrow>
   distinct (postprocess_hooks (register_postprocess_hooks self a))"
  by (cases a) (simp_all add: register_postprocess_hooks_def foldl_ordered_set_add_distinct
      ordered_set_add_distinct)

lemma compose_hooks_fixed:
  "\<forall>c\<in>set cbs. call env self c t = t \<Longrightarrow> compose_hooks env self cbs t = t"
  by (induction cbs) (simp_all add: compose_hooks_def)

lemma translate_Str_None:
  assumes "\<not> text_is_empty env (Str s)" and "u_translate_str b self s = Inr None"
  shows "translate env b self (Str s) =
     (Inr (Str (compose_hooks env self (postprocess_hooks self) [])),
      Call_translate (Str s) # snd (hooks_scalar env self (postprocess_hooks self) []))"
  using assms by (simp add: translate_def split_beta hooks_scalar_fst)

lemma finish_list_replicate:
  "finish_list env self l (replicate (length l) []) =
     (Inr (Lst (replicate (length l)
                 (if postprocess_hooks self = [] then []
                  else call env self (last (postprocess_hooks self)) []))),
      snd (hooks_list env self (postprocess_hooks self) (replicate (length l) [])))"
  by (simp add: finish_list_def split_beta hooks_list_fst)

lemma translate_Lst_None:
  assumes "\<not> text_is_empty env (Lst l)"
    and "\<And>x. u_translate_str b self x = Inr None"
    and "u_translate_list b self l = Inr None"
  shows "fst (translate env b self (Lst l)) =
     Inr (Lst (replicate (length l)
                 (if postprocess_hooks self = [] then []
                  else call env self (last (postprocess_hooks self)) [])))"
  using assms by (simp add: translate_def after_def finish_list_replicate)

lemmas ex_run_defs =
  translate_def ex_env_def ex_backend_def ex_backend_none_def ex_hooked_def ex_translator_def
  register_postprocess_hooks_def ordered_set_add_def textlist2text_def text2textlist_def
  split_def replace_def lstrip_def rstrip_def isspace_def finish_list_def after_def call_def
  compose_hooks_def str_def Let_def

text \<open>
  The adapter: every pair of a translation and a block costs one call of each hook, on
  top of the calls that \<open>translate\<close> made; and what a single outside hook leaves in
  the results of \<open>translate\<close> and in the blocks.
\<close>

lemmas ex_blk_defs = translate_textblk_lst_def ex_blk_env_def ex_heap_def call_blk_def

lemma hook_runs_blk_append:
  "hook_runs_blk c (xs @ ys) = hook_runs_blk c xs + hook_runs_blk c ys"
  by (simp add: hook_runs_blk_def)

lemma hook_runs_blk_within:
  "hook_runs_blk c (map Within_translate calls) = hook_runs c calls"
proof (induction calls)
  case Nil
  show ?case by (simp add: hook_runs_blk_def hook_runs_def)
next
  case (Cons ev calls)
  then show ?case by (cases ev) (simp_all add: hook_runs_blk_def hook_runs_def)
qed

lemma hook_runs_blk_hooks:
  "hook_runs_blk c (snd (hooks_blk env benv self cbs tr a blk)) = count_list cbs c"
  by (induction cbs arbitrary: tr) (simp_all add: hook_runs_blk_def split_beta)

lemma hook_runs_blk_write_back:
  "hook_runs_blk c (snd (write_back env benv self ps heap))
     = length ps * count_list (postprocess_hooks self) c"
proof (induction ps arbitrary: heap)
  case Nil
  show ?case by (simp add: hook_runs_blk_def)
next
  case (Cons p ps)
  obtain tr a where p: "p = (tr, a)" by (cases p)
  show ?case
    unfolding p by (simp add: split_beta hook_runs_blk_append hook_runs_blk_hooks Cons.IH)
qed

lemma translate_textblk_lst_runs:
  assumes "fst (translate_textblk_lst env benv b self blks heap) = Inr ()"
  shows "hook_runs_blk c (snd (snd (translate_textblk_lst env benv b self blks heap)))
       = (if text_is_empty env (Lst (map (\<lambda>a. get_text benv (heap a)) blks)) then 1 else 2)
         * length blks * count_list (postprocess_hooks self) c"
proof -
  let ?l = "map (\<lambda>a. get_text benv (heap a)) blks"
  obtain r calls where t: "translate env b self (Lst ?l) = (r, calls)"
    by (cases "translate env b self (Lst ?l)")
  from assms t obtain out where r: "r = Inr out"
    by (cases r) (simp_all add: translate_textblk_lst_def)
  have runs: "hook_runs_blk c (snd (snd (translate_textblk_lst env benv b self blks heap)))
      = hook_runs c calls + length (zip (items out) blks) * count_list (postprocess_hooks self) c"
    by (simp add: translate_textblk_lst_def t r split_beta hook_runs_blk_append
        hook_runs_blk_within hook_runs_blk_write_back)
  show ?thesis
  proof (cases "text_is_empty env (Lst ?l)")
    case True
    then have "out = Lst ?l" and "calls = []" using t r by (simp_all add: translate_def)
    then show ?thesis using True runs by (simp add: hook_runs_Nil)
  next
    case False
    from translate_Lst_runs [OF False t [unfolded r]]
    have "hook_runs c calls = length ?l * count_list (postprocess_hooks self) c"
      and "\<exists>outs. out = Lst outs \<and> length outs = length ?l" by blast+
    then show ?thesis using False runs by auto
  qed
qed

lemma register_twice_single:
  "postprocess_hooks self = [] \<Longrightarrow>
   postprocess_hooks
     (register_postprocess_hooks (register_postprocess_hooks self (OneCallback c)) (OneCallback c))
     = [c]"
  by (simp add: register_postprocess_hooks_def ordered_set_add_def)

lemma hooks_list_single:
  "hooks_list env self [External h] tt
     = (map (hook_fun env h) tt, map (Call_hook (External h)) tt)"
  by (induction tt) (simp_all add: call_def)

lemma finish_list_single:
  assumes "postprocess_hooks self = [External h]" and "length tt = length l"
  shows "finish_list env self l tt
     = (Inr (Lst (map (hook_fun env h) tt)), map (Call_hook (External h)) tt)"
  using assms by (simp add: finish_list_def hooks_list_single)

lemma translate_Str_single:
  assumes "postprocess_hooks self = [External h]" and "\<not> text_is_empty env (Str s)"
    and "u_translate_str b self s = Inr (Some t)"
  shows "translate env b self (Str s)
     = (Inr (Str (hook_fun env h t)), [Call_translate (Str s), Call_hook (External h) t])"
  using assms by (simp add: translate_def call_def)

lemma translate_Lst_single_plain:
  assumes "postprocess_hooks self = [External h]" and "\<not> text_is_empty env (Lst l)"
    and "\<not> concate_text b" and "u_translate_list b self l = Inr (Some tt)"
    and "length tt = length l"
  shows "translate env b self (Lst l)
     = (Inr (Lst (map (hook_fun env h) tt)),
        Call_translate (Lst l) # map (Call_hook (External h)) tt)"
  using assms by (simp add: translate_def after_def finish_list_single)

lemma translate_Lst_single_concat:
  assumes "postprocess_hooks self = [External h]" and "\<not> text_is_empty env (Lst l)"
    and "concate_text b" and "u_translate_str b self (textlist2text self l) = Inr (Some t)"
    and "text2textlist self t = Inr tt" and "length tt = length l"
  shows "translate env b self (Lst l)
     = (Inr (Lst (map (hook_fun env h) tt)),
        Call_translate (Str (textlist2text self l)) # map (Call_hook (External h)) tt)"
  using assms by (simp add: translate_def after_def finish_list_single)

lemma write_back_single:
  assumes "postprocess_hooks self = [External h]"
  shows "write_back env benv self ps heap =
     (fold (\<lambda>(tr, a) hp. hp(a := (hp a)\<lparr>translation := hook_fun_blk benv h tr (hp a)\<rparr>)) ps heap,
      map (\<lambda>(tr, a). Call_hook_blk (External h) tr a) ps)"
proof (induction ps arbitrary: heap)
  case Nil
  show ?case by simp
next
  case (Cons p ps)
  obtain tr a where p: "p = (tr, a)" by (cases p)
  show ?case unfolding p by (simp add: assms call_blk_def Cons.IH)
qed

lemma translate_textblk_lst_single:
  assumes "postprocess_hooks self = [External h]"
    and "translate env b self (Lst (map (\<lambda>a. get_text benv (heap a)) blks)) = (Inr (Lst trs), calls)"
  shows "translate_textblk_lst env benv b self blks heap =
     (Inr (),
      fold (\<lambda>(tr, a) hp. hp(a := (hp a)\<lparr>translation := hook_fun_blk benv h tr (hp a)\<rparr>))
        (zip trs blks) heap,
      map Within_translate calls @ map (\<lambda>(tr, a). Call_hook_blk (External h) tr a) (zip trs blks))"
  using assms(2) by (simp add: translate_textblk_lst_def write_back_single [OF assms(1)])

text \<open>
  C8, as amended. Registering a callback that is already in the hook set returns the
  instance unchanged, so registering twice is the same as registering once; registering
  \<open>None\<close> changes nothing; registering a list is registering its elements one after
  the other, and the hook set becomes the old one followed by the new elements in order of
  first occurrence; the hook set stays free of duplicates. Hence a hook registered twice
  is called as often as a hook registered once. A run of \<open>translate\<close> that returns, on an
  input not recognised as empty, calls it once for each fragment of a list and once for a
  single string. A run of \<open>translate_textblk_lst\<close> that returns calls it once more for
  each block, in the loop of its own that follows \<open>translate\<close>: twice for each block
  when the texts of the blocks are not recognised as empty, once when they are.

  A call is an application of the hook's function: when the hook is the only one, the
  string returned is the hook's function applied once to what the backend returned, the
  list returned holds it applied once to each fragment, and the adapter assigns to each
  block the hook's function, given the block, applied to what \<open>translate\<close> returned
  for it.
\<close>

theorem register_postprocess_hooks_dedup:
  "(c \<in> set (postprocess_hooks self) \<longrightarrow>
      register_postprocess_hooks self (OneCallback c) = self) \<and>
   register_postprocess_hooks (register_postprocess_hooks self (OneCallback c)) (OneCallback c)
     = register_postprocess_hooks self (OneCallback c) \<and>
   register_postprocess_hooks self NoCallbacks = self \<and>
   register_postprocess_hooks self (CallbackList cs)
     = foldl (\<lambda>s c. register_postprocess_hooks s (OneCallback c)) self cs \<and>
   postprocess_hooks (register_postprocess_hooks self (CallbackList cs))
     = postprocess_hooks self @
       rev (remdups (rev (filter (\<lambda>c. c \<notin> set (postprocess_hooks self)) cs))) \<and>
   (distinct (postprocess_hooks self) \<longrightarrow>
      distinct (postprocess_hooks (register_postprocess_hooks self a))) \<and>
   (distinct (postprocess_hooks self) \<and> \<not> text_is_empty env (Lst l) \<and>
    translate env b
      (register_postprocess_hooks (register_postprocess_hooks self (OneCallback c)) (OneCallback c))
      (Lst l) = (Inr out, calls) \<longrightarrow>
      hook_runs c calls = length l) \<and>
   (distinct (postprocess_hooks self) \<and> \<not> text_is_empty env (Str s) \<and>
    translate env b
      (register_postprocess_hooks (register_postprocess_hooks self (OneCallback c)) (OneCallback c))
      (Str s) = (Inr out', calls') \<longrightarrow>
      hook_runs c calls' = 1) \<and>
   (distinct (postprocess_hooks self) \<and>
    fst (translate_textblk_lst env benv b
      (register_postprocess_hooks (register_postprocess_hooks self (OneCallback c)) (OneCallback c))
      blks heap) = Inr () \<longrightarrow>
      hook_runs_blk c (snd (snd (translate_textblk_lst env benv b
        (register_postprocess_hooks (register_postprocess_hooks self (OneCallback c)) (OneCallback c))
        blks heap)))
      = (if text_is_empty env (Lst (map (\<lambda>a. get_text benv (heap a)) blks)) then 1 else 2)
        * length blks) \<and>
   (postprocess_hooks self = [] \<and> \<not> text_is_empty env (Str s) \<and>
    u_translate_str b
      (register_postprocess_hooks (register_postprocess_hooks self (OneCallback (External h)))
         (OneCallback (External h))) s = Inr (Some t) \<longrightarrow>
      translate env b
        (register_postprocess_hooks (register_postprocess_hooks self (OneCallback (External h)))
           (OneCallback (External h))) (Str s)
      = (Inr (Str (hook_fun env h t)), [Call_translate (Str s), Call_hook (External h) t])) \<and>
   (postprocess_hooks self = [] \<and> \<not> text_is_empty env (Lst l) \<and> \<not> concate_text b \<and>
    u_translate_list b
      (register_postprocess_hooks (register_postprocess_hooks self (OneCallback (External h)))
         (OneCallback (External h))) l = Inr (Some tt) \<and>
    length tt = length l \<longrightarrow>
      translate env b
        (register_postprocess_hooks (register_postprocess_hooks self (OneCallback (External h)))
           (OneCallback (External h))) (Lst l)
      = (Inr (Lst (map (hook_fun env h) tt)),
         Call_translate (Lst l) # map (Call_hook (External h)) tt)) \<and>
   (postprocess_hooks self = [] \<and> \<not> text_is_empty env (Lst l) \<and> concate_text b \<and>
    u_translate_str b
      (register_postprocess_hooks (register_postprocess_hooks self (OneCallback (External h)))
         (OneCallback (External h)))
      (textlist2text
         (register_postprocess_hooks (register_postprocess_hooks self (OneCallback (External h)))
            (OneCallback (External h))) l) = Inr (Some t') \<and>
    text2textlist
      (register_postprocess_hooks (register_postprocess_hooks self (OneCallback (External h)))
         (OneCallback (External h))) t' = Inr tt \<and>
    length tt = length l \<longrightarrow>
      translate env b
        (register_postprocess_hooks (register_postprocess_hooks self (OneCallback (External h)))
           (OneCallback (External h))) (Lst l)
      = (Inr (Lst (map (hook_fun env h) tt)),
         Call_translate (Str (textlist2text
           (register_postprocess_hooks (register_postprocess_hooks self (OneCallback (External h)))
              (OneCallback (External h))) l))
         # map (Call_hook (External h)) tt)) \<and>
   (postprocess_hooks self = [] \<and>
    translate env b
      (register_postprocess_hooks (register_postprocess_hooks self (OneCallback (External h)))
         (OneCallback (External h)))
      (Lst (map (\<lambda>a. get_text benv (heap a)) blks)) = (Inr (Lst trs), calls'') \<longrightarrow>
      translate_textblk_lst env benv b
        (register_postprocess_hooks (register_postprocess_hooks self (OneCallback (External h)))
           (OneCallback (External h))) blks heap
      = (Inr (),
         fold (\<lambda>(tr, a) hp. hp(a := (hp a)\<lparr>translation := hook_fun_blk benv h tr (hp a)\<rparr>))
           (zip trs blks) heap,
         map Within_translate calls''
           @ map (\<lambda>(tr, a). Call_hook_blk (External h) tr a) (zip trs blks)))"
proof -
  let ?r = "register_postprocess_hooks self (OneCallback c)"
  let ?h2 = "register_postprocess_hooks (register_postprocess_hooks self (OneCallback (External h)))
         (OneCallback (External h))"
  have twice: "register_postprocess_hooks ?r (OneCallback c) = ?r"
    by (simp add: register_postprocess_hooks_def ordered_set_add_twice)
  have once: "count_list (postprocess_hooks ?r) c = 1" if "distinct (postprocess_hooks self)"
  proof (rule count_list_distinct)
    show "distinct (postprocess_hooks ?r)" using that by (rule register_distinct)
    show "c \<in> set (postprocess_hooks ?r)"
      by (simp add: register_postprocess_hooks_def ordered_set_add_set)
  qed
  have a: "c \<in> set (postprocess_hooks self) \<longrightarrow> ?r = self"
    by (simp add: register_postprocess_hooks_def ordered_set_add_member)
  have n: "register_postprocess_hooks self NoCallbacks = self"
    by (simp add: register_postprocess_hooks_def)
  have f: "postprocess_hooks (register_postprocess_hooks self (CallbackList cs))
     = postprocess_hooks self @
       rev (remdups (rev (filter (\<lambda>c. c \<notin> set (postprocess_hooks self)) cs)))"
    by (simp add: register_postprocess_hooks_def foldl_ordered_set_add)
  have d: "distinct (postprocess_hooks self) \<longrightarrow>
      distinct (postprocess_hooks (register_postprocess_hooks self a))"
    using register_distinct by blast
  have rl: "distinct (postprocess_hooks self) \<and> \<not> text_is_empty env (Lst l) \<and>
      translate env b (register_postprocess_hooks ?r (OneCallback c)) (Lst l) = (Inr out, calls)
      \<longrightarrow> hook_runs c calls = length l"
    unfolding twice using translate_Lst_runs(1) [of env l b ?r out calls c] once by auto
  have rs: "distinct (postprocess_hooks self) \<and> \<not> text_is_empty env (Str s) \<and>
      translate env b (register_postprocess_hooks ?r (OneCallback c)) (Str s) = (Inr out', calls')
      \<longrightarrow> hook_runs c calls' = 1"
    unfolding twice using translate_Str_runs [of env s b ?r out' calls' c] once by auto
  have rb: "distinct (postprocess_hooks self) \<and>
      fst (translate_textblk_lst env benv b (register_postprocess_hooks ?r (OneCallback c))
        blks heap) = Inr () \<longrightarrow>
      hook_runs_blk c (snd (snd (translate_textblk_lst env benv b
        (register_postprocess_hooks ?r (OneCallback c)) blks heap)))
      = (if text_is_empty env (Lst (map (\<lambda>a. get_text benv (heap a)) blks)) then 1 else 2)
        * length blks"
    unfolding twice using translate_textblk_lst_runs [of env benv b ?r blks heap c] once by auto
  have single: "postprocess_hooks self = [] \<Longrightarrow> postprocess_hooks ?h2 = [External h]"
    by (rule register_twice_single)
  have os: "postprocess_hooks self = [] \<and> \<not> text_is_empty env (Str s) \<and>
      u_translate_str b ?h2 s = Inr (Some t) \<longrightarrow>
      translate env b ?h2 (Str s)
      = (Inr (Str (hook_fun env h t)), [Call_translate (Str s), Call_hook (External h) t])"
    using translate_Str_single [of ?h2 h env s b t] single by blast
  have op: "postprocess_hooks self = [] \<and> \<not> text_is_empty env (Lst l) \<and> \<not> concate_text b \<and>
      u_translate_list b ?h2 l = Inr (Some tt) \<and> length tt = length l \<longrightarrow>
      translate env b ?h2 (Lst l)
      = (Inr (Lst (map (hook_fun env h) tt)),
         Call_translate (Lst l) # map (Call_hook (External h)) tt)"
    using translate_Lst_single_plain [of ?h2 h env l b tt] single by blast
  have oc: "postprocess_hooks self = [] \<and> \<not> text_is_empty env (Lst l) \<and> concate_text b \<and>
      u_translate_str b ?h2 (textlist2text ?h2 l) = Inr (Some t') \<and>
      text2textlist ?h2 t' = Inr tt \<and> length tt = length l \<longrightarrow>
      translate env b ?h2 (Lst l)
      = (Inr (Lst (map (hook_fun env h) tt)),
         Call_translate (Str (textlist2text ?h2 l)) # map (Call_hook (External h)) tt)"
    using translate_Lst_single_concat [of ?h2 h env l b t' tt] single by blast
  have ob: "postprocess_hooks self = [] \<and>
      translate env b ?h2 (Lst (map (\<lambda>a. get_text benv (heap a)) blks)) = (Inr (Lst trs), calls'')
      \<longrightarrow>
      translate_textblk_lst env benv b ?h2 blks heap
      = (Inr (),
         fold (\<lambda>(tr, a) hp. hp(a := (hp a)\<lparr>translation := hook_fun_blk benv h tr (hp a)\<rparr>))
           (zip trs blks) heap,
         map Within_translate calls''
           @ map (\<lambda>(tr, a). Call_hook_blk (External h) tr a) (zip trs blks))"
    using translate_textblk_lst_single [of ?h2 h env b benv heap blks trs calls''] single by blast
  from a twice n register_list_as_singles [of self cs] f d rl rs rb os op oc ob
  show ?thesis by blast
qed

theorem register_postprocess_hooks_dedup_witness:
  "register_postprocess_hooks
      (register_postprocess_hooks ex_translator (OneCallback (External 1))) (OneCallback (External 1))
     = register_postprocess_hooks ex_translator (OneCallback (External 1)) \<and>
   postprocess_hooks
      (register_postprocess_hooks ex_translator (CallbackList [External 1, External 2, External 1]))
     = [External 1, External 2] \<and>
   hook_runs (External 1)
     (snd (translate ex_env ex_backend
        (register_postprocess_hooks
           (register_postprocess_hooks ex_translator (OneCallback (External 1)))
           (OneCallback (External 1)))
        (Lst [str ''a'', str ''b'']))) = 2 \<and>
   hook_runs_blk (External 1)
     (snd (snd (translate_textblk_lst ex_env ex_blk_env ex_backend
        (register_postprocess_hooks
           (register_postprocess_hooks ex_translator (OneCallback (External 1)))
           (OneCallback (External 1)))
        [0, 1] ex_heap))) = 4 \<and>
   translate ex_env ex_backend
     (register_postprocess_hooks
        (register_postprocess_hooks ex_translator (OneCallback (External 1)))
        (OneCallback (External 1)))
     (Str (str ''a''))
     = (Inr (Str (str ''a1'')),
        [Call_translate (Str (str ''a'')), Call_hook (External 1) (str ''a'')]) \<and>
   translate ex_env ex_backend
     (register_postprocess_hooks
        (register_postprocess_hooks ex_translator (OneCallback (External 1)))
        (OneCallback (External 1)))
     (Lst [str ''a'', str ''b''])
     = (Inr (Lst [str ''a1'', str ''b1'']),
        [Call_translate (Str (str ''a\<newline>###\<newline>b'')),
         Call_hook (External 1) (str ''a''), Call_hook (External 1) (str ''b'')]) \<and>
   translate ex_env (ex_backend\<lparr>concate_text := False\<rparr>)
     (register_postprocess_hooks
        (register_postprocess_hooks ex_translator (OneCallback (External 1)))
        (OneCallback (External 1)))
     (Lst [str ''a'', str ''b''])
     = (Inr (Lst [str ''a1'', str ''b1'']),
        [Call_translate (Lst [str ''a'', str ''b'']),
         Call_hook (External 1) (str ''a''), Call_hook (External 1) (str ''b'')]) \<and>
   translation (fst (snd (translate_textblk_lst ex_env ex_blk_env ex_backend
        (register_postprocess_hooks
           (register_postprocess_hooks ex_translator (OneCallback (External 1)))
           (OneCallback (External 1)))
        [0, 1] ex_heap)) 0) = str ''a11'' \<and>
   translation (fst (snd (translate_textblk_lst ex_env ex_blk_env ex_backend
        (register_postprocess_hooks
           (register_postprocess_hooks ex_translator (OneCallback (External 1)))
           (OneCallback (External 1)))
        [0, 1] ex_heap)) 1) = str ''b11'' \<and>
   register_postprocess_hooks ex_hooked (OneCallback (External 1)) = ex_hooked \<and>
   distinct (postprocess_hooks
      (register_postprocess_hooks ex_translator (CallbackList [External 1, External 2, External 1]))) \<and>
   hook_runs (External 1)
     (snd (translate ex_env ex_backend
        (register_postprocess_hooks
           (register_postprocess_hooks ex_translator (OneCallback (External 1)))
           (OneCallback (External 1)))
        (Str (str ''a'')))) = 1"
proof -
  let ?r2 = "register_postprocess_hooks
      (register_postprocess_hooks ex_translator (OneCallback (External 1))) (OneCallback (External 1))"
  let ?l = "[str ''a'', str ''b'']"
  let ?calls = "[Call_translate (Str (str ''a\<newline>###\<newline>b'')),
       Call_hook (External 1) (str ''a''), Call_hook (External 1) (str ''b'')]"
  have d: "distinct (postprocess_hooks ex_translator)" by (simp add: ex_translator_def)
  have e: "postprocess_hooks ex_translator = []" by (simp add: ex_translator_def)
  have n: "\<not> text_is_empty ex_env (Lst ?l)" by (simp add: ex_env_def)
  have ns: "\<not> text_is_empty ex_env (Str (str ''a''))" by (simp add: ex_env_def str_def)
  have ev: "translate ex_env ex_backend ?r2 (Lst ?l) = (Inr (Lst [str ''a1'', str ''b1'']), ?calls)"
    by (simp add: ex_run_defs)
  have texts: "map (\<lambda>a. get_text ex_blk_env (ex_heap a)) [0, 1] = ?l"
    by (simp add: ex_blk_env_def ex_heap_def)
  have ok: "fst (translate_textblk_lst ex_env ex_blk_env ex_backend ?r2 [0, 1] ex_heap) = Inr ()"
    by (simp add: ex_blk_defs ex_run_defs)
  have twice: "(if text_is_empty ex_env (Lst (map (\<lambda>a. get_text ex_blk_env (ex_heap a)) [0, 1]))
                then 1 else 2) * length [0::nat, 1] = (4::nat)"
    by (simp add: ex_env_def)
  have us: "u_translate_str ex_backend ?r2 (str ''a'') = Inr (Some (str ''a''))"
    by (simp add: ex_backend_def)
  have uj: "u_translate_str ex_backend ?r2 (textlist2text ?r2 ?l)
      = Inr (Some (str ''a\<newline>###\<newline>b''))"
    by (simp add: ex_run_defs)
  have j: "textlist2text ?r2 ?l = str ''a\<newline>###\<newline>b''"
    by (simp add: ex_run_defs)
  have sp: "text2textlist ?r2 (str ''a\<newline>###\<newline>b'') = Inr ?l"
    by (simp add: ex_run_defs)
  have len: "length ?l = length ?l" by simp
  have c1: "concate_text ex_backend" by (simp add: ex_backend_def)
  have c2: "\<not> concate_text (ex_backend\<lparr>concate_text := False\<rparr>)" by simp
  have ul: "u_translate_list (ex_backend\<lparr>concate_text := False\<rparr>) ?r2 ?l = Inr (Some ?l)"
    by (simp add: ex_backend_def)
  have hs: "hook_fun ex_env 1 (str ''a'') = str ''a1''"
    and hb: "hook_fun ex_env 1 (str ''b'') = str ''b1''"
    by (simp_all add: ex_env_def str_def)
  note th = register_postprocess_hooks_dedup [where c = "External 1" and self = ex_translator
      and cs = "[External 1, External 2, External 1]"
      and a = "CallbackList [External 1, External 2, External 1]" and env = ex_env
      and l = ?l and b = ex_backend and out = "Lst [str ''a1'', str ''b1'']" and calls = ?calls
      and out' = "Str (str ''a1'')"
      and calls' = "[Call_translate (Str (str ''a'')), Call_hook (External 1) (str ''a'')]"
      and benv = ex_blk_env and blks = "[0, 1]" and heap = ex_heap and h = 1
      and s = "str ''a''" and t = "str ''a''" and t' = "str ''a\<newline>###\<newline>b''" and tt = ?l
      and trs = "[str ''a1'', str ''b1'']" and calls'' = ?calls]
  note th' = register_postprocess_hooks_dedup [where self = ex_translator and env = ex_env
      and l = ?l and b = "ex_backend\<lparr>concate_text := False\<rparr>" and h = 1 and tt = ?l]
  from th have a: "?r2 = register_postprocess_hooks ex_translator (OneCallback (External 1))"
    by blast
  from th have "postprocess_hooks
      (register_postprocess_hooks ex_translator (CallbackList [External 1, External 2, External 1]))
     = postprocess_hooks ex_translator @
       rev (remdups (rev (filter (\<lambda>c. c \<notin> set (postprocess_hooks ex_translator))
          [External 1, External 2, External 1])))"
    by blast
  then have b: "postprocess_hooks
      (register_postprocess_hooks ex_translator (CallbackList [External 1, External 2, External 1]))
     = [External 1, External 2]"
    by (simp add: ex_translator_def)
  from th d n ev have "hook_runs (External 1) ?calls = length ?l"
    by blast
  then have c: "hook_runs (External 1) (snd (translate ex_env ex_backend ?r2 (Lst ?l))) = 2"
    unfolding ev snd_conv by simp
  from th d ok have "hook_runs_blk (External 1)
      (snd (snd (translate_textblk_lst ex_env ex_blk_env ex_backend ?r2 [0, 1] ex_heap)))
      = (if text_is_empty ex_env (Lst (map (\<lambda>a. get_text ex_blk_env (ex_heap a)) [0, 1]))
         then 1 else 2) * length [0::nat, 1]"
    by blast
  then have k: "hook_runs_blk (External 1)
      (snd (snd (translate_textblk_lst ex_env ex_blk_env ex_backend ?r2 [0, 1] ex_heap))) = 4"
    by (simp only: twice)
  from th e ns us have "translate ex_env ex_backend ?r2 (Str (str ''a''))
      = (Inr (Str (hook_fun ex_env 1 (str ''a''))),
         [Call_translate (Str (str ''a'')), Call_hook (External 1) (str ''a'')])"
    by blast
  then have o1: "translate ex_env ex_backend ?r2 (Str (str ''a''))
      = (Inr (Str (str ''a1'')),
         [Call_translate (Str (str ''a'')), Call_hook (External 1) (str ''a'')])"
    by (simp only: hs)
  from th e n c1 uj sp len have "translate ex_env ex_backend ?r2 (Lst ?l)
      = (Inr (Lst (map (hook_fun ex_env 1) ?l)),
         Call_translate (Str (textlist2text ?r2 ?l)) # map (Call_hook (External 1)) ?l)"
    by blast
  then have o2: "translate ex_env ex_backend ?r2 (Lst ?l)
      = (Inr (Lst [str ''a1'', str ''b1'']), ?calls)"
    by (simp only: hs hb j list.map)
  from th' e n c2 ul len have "translate ex_env (ex_backend\<lparr>concate_text := False\<rparr>) ?r2 (Lst ?l)
      = (Inr (Lst (map (hook_fun ex_env 1) ?l)),
         Call_translate (Lst ?l) # map (Call_hook (External 1)) ?l)"
    by blast
  then have o3: "translate ex_env (ex_backend\<lparr>concate_text := False\<rparr>) ?r2 (Lst ?l)
      = (Inr (Lst [str ''a1'', str ''b1'']),
         [Call_translate (Lst ?l),
          Call_hook (External 1) (str ''a''), Call_hook (External 1) (str ''b'')])"
    by (simp only: hs hb list.map)
  have ev': "translate ex_env ex_backend ?r2
      (Lst (map (\<lambda>a. get_text ex_blk_env (ex_heap a)) [0, 1]))
      = (Inr (Lst [str ''a1'', str ''b1'']), ?calls)"
    unfolding texts by (rule ev)
  from th e ev' have o4: "translate_textblk_lst ex_env ex_blk_env ex_backend ?r2 [0, 1] ex_heap
      = (Inr (),
         fold (\<lambda>(tr, a) hp.
                 hp(a := (hp a)\<lparr>translation := hook_fun_blk ex_blk_env 1 tr (hp a)\<rparr>))
           (zip [str ''a1'', str ''b1''] [0, 1]) ex_heap,
         map Within_translate ?calls
           @ map (\<lambda>(tr, a). Call_hook_blk (External 1) tr a) (zip [str ''a1'', str ''b1''] [0, 1]))"
    by blast
  have w0: "translation (fst (snd (translate_textblk_lst ex_env ex_blk_env ex_backend ?r2
      [0, 1] ex_heap)) 0) = str ''a11''"
    unfolding o4 by (simp add: ex_blk_env_def str_def)
  have w1: "translation (fst (snd (translate_textblk_lst ex_env ex_blk_env ex_backend ?r2
      [0, 1] ex_heap)) 1) = str ''b11''"
    unfolding o4 by (simp add: ex_blk_env_def str_def)
  have m: "External 1 \<in> set (postprocess_hooks ex_hooked)"
    by (simp add: ex_hooked_def ex_translator_def register_postprocess_hooks_def
        ordered_set_add_def)
  from register_postprocess_hooks_dedup [where c = "External 1" and self = ex_hooked] m
  have p: "register_postprocess_hooks ex_hooked (OneCallback (External 1)) = ex_hooked"
    by blast
  from th d have q: "distinct (postprocess_hooks
      (register_postprocess_hooks ex_translator (CallbackList [External 1, External 2, External 1])))"
    by blast
  from th d ns o1
  have "hook_runs (External 1)
      [Call_translate (Str (str ''a'')), Call_hook (External 1) (str ''a'')] = 1"
    by blast
  then have r: "hook_runs (External 1)
      (snd (translate ex_env ex_backend ?r2 (Str (str ''a'')))) = 1"
    unfolding o1 snd_conv .
  from a b c k o1 o2 o3 w0 w1 p q r show ?thesis by blast
qed

text \<open>
  C8 as stated fails on the adapter: with the hook that appends \<open>1\<close> registered twice
  and two blocks reading \<open>a\<close> and \<open>b\<close>, \<open>translate_textblk_lst\<close> calls the hook four
  times, twice for each block, once within \<open>translate\<close> and once in its own loop, and
  leaves the translations \<open>a11\<close> and \<open>b11\<close>.
\<close>

theorem register_postprocess_hooks_dedup_counterexample:
  "postprocess_hooks
     (register_postprocess_hooks
        (register_postprocess_hooks ex_translator (OneCallback (External 1)))
        (OneCallback (External 1))) = [External 1] \<and>
   translate_textblk_lst ex_env ex_blk_env ex_backend
     (register_postprocess_hooks
        (register_postprocess_hooks ex_translator (OneCallback (External 1)))
        (OneCallback (External 1)))
     [0, 1] ex_heap
   = (Inr (),
      ex_heap(0 := (ex_heap 0)\<lparr>translation := str ''a11''\<rparr>,
              1 := (ex_heap 1)\<lparr>translation := str ''b11''\<rparr>),
      [Within_translate (Call_translate (Str (str ''a\<newline>###\<newline>b''))),
       Within_translate (Call_hook (External 1) (str ''a'')),
       Within_translate (Call_hook (External 1) (str ''b'')),
       Call_hook_blk (External 1) (str ''a1'') 0,
       Call_hook_blk (External 1) (str ''b1'') 1]) \<and>
   hook_runs_blk (External 1)
     [Within_translate (Call_translate (Str (str ''a\<newline>###\<newline>b''))),
      Within_translate (Call_hook (External 1) (str ''a'')),
      Within_translate (Call_hook (External 1) (str ''b'')),
      Call_hook_blk (External 1) (str ''a1'') 0,
      Call_hook_blk (External 1) (str ''b1'') 1] = 4 \<and>
   length [0::nat, 1] = 2"
  by (simp add: ex_blk_defs ex_run_defs hook_runs_blk_def)

text \<open>
  C3, as amended. Let the backend's \<open>_translate\<close> return \<open>None\<close>, and let the input not
  be recognised as empty. For a single string \<open>translate\<close> returns a string, the hooks
  applied in order to the empty string; for a list of \<open>N\<close> strings it returns a list of
  \<open>N\<close> strings; so the result is never \<open>None\<close> and has the shape of the input. When
  every registered hook maps the empty string to itself (in particular when there is no
  hook), the results are the empty string and \<open>N\<close> empty strings.
\<close>

theorem translate_none:
  assumes "\<And>x. u_translate_str b self x = Inr None"
    and "\<And>x. u_translate_list b self x = Inr None"
  shows "(\<not> text_is_empty env (Str s) \<longrightarrow>
            (\<exists>calls. translate env b self (Str s) =
               (Inr (Str (compose_hooks env self (postprocess_hooks self) [])), calls))) \<and>
         (\<not> text_is_empty env (Lst l) \<longrightarrow>
            (\<exists>outs. fst (translate env b self (Lst l)) = Inr (Lst outs) \<and>
               length outs = length l)) \<and>
         ((\<forall>c\<in>set (postprocess_hooks self). call env self c [] = []) \<longrightarrow>
            (\<not> text_is_empty env (Str s) \<longrightarrow>
               fst (translate env b self (Str s)) = Inr (Str [])) \<and>
            (\<not> text_is_empty env (Lst l) \<longrightarrow>
               fst (translate env b self (Lst l)) = Inr (Lst (replicate (length l) []))))"
proof (intro conjI impI)
  assume "\<not> text_is_empty env (Str s)"
  then show "\<exists>calls. translate env b self (Str s) =
      (Inr (Str (compose_hooks env self (postprocess_hooks self) [])), calls)"
    using translate_Str_None assms(1) by blast
next
  assume "\<not> text_is_empty env (Lst l)"
  then have "fst (translate env b self (Lst l)) =
     Inr (Lst (replicate (length l)
                 (if postprocess_hooks self = [] then []
                  else call env self (last (postprocess_hooks self)) [])))"
    using assms by (intro translate_Lst_None)
  then show "\<exists>outs. fst (translate env b self (Lst l)) = Inr (Lst outs) \<and> length outs = length l"
    by simp
next
  assume f: "\<forall>c\<in>set (postprocess_hooks self). call env self c [] = []"
    and "\<not> text_is_empty env (Str s)"
  then show "fst (translate env b self (Str s)) = Inr (Str [])"
    using translate_Str_None [of env s b self] assms(1) compose_hooks_fixed [OF f] by simp
next
  assume f: "\<forall>c\<in>set (postprocess_hooks self). call env self c [] = []"
    and n: "\<not> text_is_empty env (Lst l)"
  have "(if postprocess_hooks self = [] then []
         else call env self (last (postprocess_hooks self)) []) = []"
    using f by simp
  then show "fst (translate env b self (Lst l)) = Inr (Lst (replicate (length l) []))"
    using translate_Lst_None [OF n assms(1) assms(2)] by simp
qed

theorem translate_none_witness:
  "fst (translate ex_env ex_backend_none
          (register_postprocess_hooks ex_translator (OneCallback Chs2cht_method))
          (Str (str ''hi''))) = Inr (Str []) \<and>
   fst (translate ex_env ex_backend_none
          (register_postprocess_hooks ex_translator (OneCallback Chs2cht_method))
          (Lst [str ''a'', str ''b'', str ''c''])) = Inr (Lst [[], [], []])"
proof -
  let ?self = "register_postprocess_hooks ex_translator (OneCallback Chs2cht_method)"
  have a: "u_translate_str ex_backend_none ?self x = Inr None" for x
    by (simp add: ex_backend_none_def)
  have b: "u_translate_list ex_backend_none ?self x = Inr None" for x
    by (simp add: ex_backend_none_def)
  have h: "postprocess_hooks ?self = [Chs2cht_method]"
    by (simp add: register_postprocess_hooks_def ordered_set_add_def ex_translator_def)
  have t: "lang_target ?self = str ''Deutsch''"
    by (simp add: register_postprocess_hooks_def ex_translator_def)
  have f: "\<forall>c\<in>set (postprocess_hooks ?self). call ex_env ?self c [] = []"
    unfolding h by (simp add: call_def u_chs2cht_def ex_env_def)
  have n1: "\<not> text_is_empty ex_env (Str (str ''hi''))"
    by (simp add: ex_env_def str_def)
  have n2: "\<not> text_is_empty ex_env (Lst [str ''a'', str ''b'', str ''c''])"
    by (simp add: ex_env_def)
  from translate_none [of ex_backend_none ?self ex_env "str ''hi''" "[str ''a'', str ''b'', str ''c'']",
      OF a b] f n1 n2
  have "fst (translate ex_env ex_backend_none ?self (Str (str ''hi''))) = Inr (Str [])"
    and "fst (translate ex_env ex_backend_none ?self (Lst [str ''a'', str ''b'', str ''c'']))
      = Inr (Lst (replicate (length [str ''a'', str ''b'', str ''c'']) []))"
    by blast+
  then show ?thesis by (simp add: numeral_3_eq_3)
qed

text \<open>
  C3 as stated fails when a hook does not keep the empty string: the hooks run on the
  substituted empty string too, and with the hooks that append \<open>1\<close> and \<open>2\<close> the run
  on \<open>hi\<close> returns \<open>12\<close>.
\<close>

theorem translate_none_counterexample:
  "u_translate_str ex_backend_none ex_hooked (str ''hi'') = Inr None \<and>
   \<not> text_is_empty ex_env (Str (str ''hi'')) \<and>
   fst (translate ex_env ex_backend_none ex_hooked (Str (str ''hi''))) = Inr (Str (str ''12''))"
  by (simp add: ex_run_defs)

text \<open>
  C1 does not hold of the code. With the hooks that append \<open>1\<close> and \<open>2\<close> registered in
  this order and a backend that echoes its input, \<open>translate(['a'])\<close> returns
  \<open>['a2']\<close>: both hooks are called on the fragment \<open>a\<close>, and the slot is overwritten.
  The composition of the hooks on \<open>a\<close> is \<open>a12\<close>, which is what the scalar branch
  returns for \<open>translate('a')\<close>.
\<close>

theorem translate_list_hooks_overwrite:
  "postprocess_hooks ex_hooked = [External 1, External 2] \<and>
   translate ex_env ex_backend ex_hooked (Lst [str ''a'']) =
     (Inr (Lst [str ''a2'']),
      [Call_translate (Str (str ''a'')), Call_hook (External 1) (str ''a''),
       Call_hook (External 2) (str ''a'')]) \<and>
   compose_hooks ex_env ex_hooked (postprocess_hooks ex_hooked) (str ''a'') = str ''a12'' \<and>
   translate ex_env ex_backend ex_hooked (Str (str ''a'')) =
     (Inr (Str (str ''a12'')),
      [Call_translate (Str (str ''a'')), Call_hook (External 1) (str ''a''),
       Call_hook (External 2) (str ''a1'')])"
  by (simp add: ex_run_defs)

end
